theory Spec2Isabelle
  imports Main "HOL-Library.Extended_Nat"
begin

section \<open>Python values, strings and paths\<close>

text \<open>
  The backend is three Python files: \<^verbatim>\<open>main.py\<close> (the FastAPI handlers),
  \<^verbatim>\<open>rag_service.py\<close> (the class \<^verbatim>\<open>RAGService\<close>) and \<^verbatim>\<open>reindex.py\<close>.
  Exceptions are values: the handlers only tell three classes apart
  (\<^verbatim>\<open>asyncio.TimeoutError\<close>, \<^verbatim>\<open>HTTPException\<close>, any other \<^verbatim>\<open>Exception\<close>), so
  these are the three constructors; \<open>Error m\<close> is an exception whose \<^verbatim>\<open>str(e)\<close> is \<open>m\<close>.
\<close>

datatype exn = Error string | TimeoutError | HTTPException nat string

text \<open>Metadata values of a LangChain document: strings and integers.\<close>

datatype pyval = PStr string | PInt int

record document =
  page_content :: string
  metadata :: "(string \<times> pyval) list"

text \<open>\<^verbatim>\<open>d.get(key, default)\<close> on a dict kept as an association list.\<close>

definition dict_get :: "(string \<times> 'v) list \<Rightarrow> string \<Rightarrow> 'v \<Rightarrow> 'v" where
  "dict_get d key dflt = (case map_of d key of None \<Rightarrow> dflt | Some v \<Rightarrow> v)"

text \<open>\<^verbatim>\<open>s.endswith(suffix)\<close>.\<close>

definition endswith :: "string \<Rightarrow> string \<Rightarrow> bool" where
  "endswith s suffix =
     (length suffix \<le> length s \<and> drop (length s - length suffix) s = suffix)"

text \<open>\<^verbatim>\<open>s.lower()\<close> on the ASCII letters.\<close>

definition lower_char :: "char \<Rightarrow> char" where
  "lower_char c =
     (case map_of (zip ''ABCDEFGHIJKLMNOPQRSTUVWXYZ'' ''abcdefghijklmnopqrstuvwxyz'') c of
        None \<Rightarrow> c | Some l \<Rightarrow> l)"

definition lower :: "string \<Rightarrow> string" where
  "lower s = map lower_char s"

text \<open>\<^verbatim>\<open>str(n)\<close> of a Python int.\<close>

definition digit_char :: "nat \<Rightarrow> char" where
  "digit_char d = ''0123456789'' ! (d mod 10)"

fun str_nat :: "nat \<Rightarrow> string" where
  "str_nat n = (if n < 10 then [digit_char n] else str_nat (n div 10) @ [digit_char (n mod 10)])"

declare str_nat.simps [simp del]

definition str_int :: "int \<Rightarrow> string" where
  "str_int i = (if i < 0 then CHR ''-'' # str_nat (nat (- i)) else str_nat (nat i))"

fun str_exn :: "exn \<Rightarrow> string" where
  "str_exn (Error m) = m"
| "str_exn TimeoutError = ''''"
| "str_exn (HTTPException status detail) = str_nat status @ '': '' @ detail"

text \<open>A name between apostrophes, as Python's error messages print it.\<close>

definition quoted :: "string \<Rightarrow> string" where
  "quoted name = [CHR 0x27] @ name @ [CHR 0x27]"

text \<open>\<^verbatim>\<open>os.path.join(a, b)\<close> and \<^verbatim>\<open>os.path.basename(p)\<close> on POSIX.\<close>

definition path_join :: "string \<Rightarrow> string \<Rightarrow> string" where
  "path_join a b =
     (if b \<noteq> [] \<and> hd b = CHR ''/'' then b
      else if a = [] \<or> last a = CHR ''/'' then a @ b
      else a @ ''/'' @ b)"

definition basename :: "string \<Rightarrow> string" where
  "basename p = rev (takeWhile (\<lambda>c. c \<noteq> CHR ''/'') (rev p))"

section \<open>The world outside the program\<close>

text \<open>
  Every call that leaves the program (the operating system, the PDF loader, the text
  splitter, FAISS, the LLM) is a \<open>call\<close>. The trace of a run lists the calls in the
  order they are made, each with the thread it runs on: \<open>Direct\<close> is the calling
  thread (the event loop, when a request is served), \<open>Pool e\<close> a worker of a
  thread-pool executor reached through \<^verbatim>\<open>loop.run_in_executor(e, ...)\<close>.
\<close>

datatype call =
    Makedirs string
  | WriteFile string
  | PdfLoad string
  | SplitDocuments nat nat
  | FromDocuments
  | AddDocuments
  | SaveLocal string
  | LoadLocal string
  | Retrieve nat string
  | LlmInvoke string

datatype executor = ServiceExecutor | DefaultExecutor

datatype ctx = Direct | Pool executor

type_synonym event = "ctx \<times> call"

record datetime =
  year :: nat
  month :: nat
  day :: nat
  hour :: nat
  minute :: nat
  second :: nat
  microsecond :: nat

datatype llm =
    ChatOpenAI string
  | Ollama string string
  | HuggingFaceEndpoint string string

datatype embeddings =
    OpenAIEmbeddings string
  | HuggingFaceEmbeddings string

text \<open>
  What the outside world answers. \<open>fault w c = Some m\<close>: the call \<open>c\<close> raises an
  exception with message \<open>m\<close>. \<open>duration w c\<close>: the milliseconds the call takes,
  \<open>\<infinity>\<close> for a call that never returns. \<open>pdf_pages\<close> is the text PyPDF extracts from the
  bytes of a file, page by page; \<open>split_text size overlap\<close> is
  \<^verbatim>\<open>RecursiveCharacterTextSplitter.split_text\<close>; \<open>rank q docs\<close> is the stored chunks by
  decreasing similarity to \<open>q\<close>; \<open>llm_reply l p\<close> is the text the model \<open>l\<close> answers to
  the prompt \<open>p\<close>; \<open>now n\<close> is the \<open>n\<close>-th reading of \<^verbatim>\<open>datetime.now()\<close> in a request.
\<close>

record world =
  environ :: "string \<rightharpoonup> string"
  fault :: "call \<Rightarrow> string option"
  duration :: "call \<Rightarrow> enat"
  pdf_pages :: "string \<Rightarrow> string list"
  split_text :: "nat \<Rightarrow> nat \<Rightarrow> string \<Rightarrow> string list"
  rank :: "string \<Rightarrow> document list \<Rightarrow> document list"
  llm_reply :: "llm \<Rightarrow> string \<Rightarrow> string"
  now :: "nat \<Rightarrow> datetime"

text \<open>\<^verbatim>\<open>os.getenv(key, default)\<close> and \<^verbatim>\<open>os.getenv(key)\<close>.\<close>

definition getenv :: "world \<Rightarrow> string \<Rightarrow> string \<Rightarrow> string" where
  "getenv w key dflt = (case environ w key of None \<Rightarrow> dflt | Some v \<Rightarrow> v)"

definition elapsed :: "world \<Rightarrow> event list \<Rightarrow> enat" where
  "elapsed w tr = sum_list (map (\<lambda>ev. duration w (snd ev)) tr)"

section \<open>State: the file system, the FAISS objects, the service object\<close>

datatype file_data =
    Bytes string
  | JsonDoc "(string \<times> string option) list"
  | FaissIndex "document list"

text \<open>
  A retriever keeps a reference to the FAISS object it was made from, and
  \<^verbatim>\<open>add_documents\<close> mutates that object in place, so FAISS objects live in a store
  \<open>objs\<close> indexed by reference. A FAISS object is the list of its chunks.
  The QA chain is the LCEL pipeline of \<^verbatim>\<open>_initialize_qa_chain\<close>, a list of stages.
\<close>

record retriever =
  vs_ref :: nat
  search_k :: nat

datatype runnable =
    RetrieveContext retriever
  | PromptTemplate
  | LlmStage llm
  | StrOutputParser

record state =
  files :: "string \<rightharpoonup> file_data"
  dirs :: "string set"
  objs :: "nat \<Rightarrow> document list"
  next_ref :: nat
  embeddings :: "embeddings option"
  vectorstore :: "nat option"
  qa_chain :: "runnable list option"
  llm :: "llm option"
  retriever :: "retriever option"
  persist_directory :: string

section \<open>Computations: trace, state, exception\<close>

type_synonym 'a outcome = "event list \<times> state \<times> (exn + 'a)"

type_synonym 'a prog = "state \<Rightarrow> 'a outcome"

definition trace_of :: "'a outcome \<Rightarrow> event list" where
  "trace_of out = fst out"

definition state_of :: "'a outcome \<Rightarrow> state" where
  "state_of out = fst (snd out)"

definition result_of :: "'a outcome \<Rightarrow> exn + 'a" where
  "result_of out = snd (snd out)"

text \<open>The outcome \<open>out\<close> of the rest of a run, after the calls \<open>tr\<close>.\<close>

definition prepend :: "event list \<Rightarrow> 'a outcome \<Rightarrow> 'a outcome" where
  "prepend tr out = (case out of (tr', s, r) \<Rightarrow> (tr @ tr', s, r))"

definition ret :: "'a \<Rightarrow> 'a prog" where
  "ret x = (\<lambda>s. ([], s, Inr x))"

definition raise :: "exn \<Rightarrow> 'a prog" where
  "raise e = (\<lambda>s. ([], s, Inl e))"

definition bind :: "'a prog \<Rightarrow> ('a \<Rightarrow> 'b prog) \<Rightarrow> 'b prog" where
  "bind m f = (\<lambda>s. case m s of
       (tr, s', Inl e) \<Rightarrow> (tr, s', Inl e)
     | (tr, s', Inr x) \<Rightarrow> prepend tr (f x s'))"

text \<open>\<^verbatim>\<open>try: m except Exception as e: h(e)\<close>.\<close>

definition try_except :: "'a prog \<Rightarrow> (exn \<Rightarrow> 'a prog) \<Rightarrow> 'a prog" where
  "try_except m h = (\<lambda>s. case m s of
       (tr, s', Inl e) \<Rightarrow> prepend tr (h e s')
     | (tr, s', Inr x) \<Rightarrow> (tr, s', Inr x))"

text \<open>
  An outside call on thread \<open>c\<close>: it is logged, it raises when the world says so, and
  otherwise the state becomes \<open>upd s\<close> and the value is \<open>v s\<close>.
\<close>

definition extern :: "world \<Rightarrow> ctx \<Rightarrow> call \<Rightarrow> (state \<Rightarrow> state) \<Rightarrow> (state \<Rightarrow> 'a) \<Rightarrow> 'a prog" where
  "extern w c cl upd v = (\<lambda>s. case fault w cl of
       Some m \<Rightarrow> ([(c, cl)], s, Inl (Error m))
     | None \<Rightarrow> ([(c, cl)], upd s, Inr (v s)))"


definition get_state :: "state prog" where
  "get_state = (\<lambda>s. ([], s, Inr s))"

definition modify :: "(state \<Rightarrow> state) \<Rightarrow> unit prog" where
  "modify f = (\<lambda>s. ([], f s, Inr ()))"

definition lift :: "exn + 'a \<Rightarrow> 'a prog" where
  "lift r = (\<lambda>s. ([], s, r))"

text \<open>\<^verbatim>\<open>await loop.run_in_executor(e, f)\<close>: \<open>f\<close> runs on a worker of \<open>e\<close>.\<close>

definition run_in_executor :: "executor \<Rightarrow> (ctx \<Rightarrow> 'a prog) \<Rightarrow> 'a prog" where
  "run_in_executor e f = f (Pool e)"

text \<open>
  \<^verbatim>\<open>await asyncio.wait_for(m, timeout)\<close>, the timeout in milliseconds. When the calls of
  \<open>m\<close> take longer than the timeout, \<open>m\<close> is cancelled and \<^verbatim>\<open>TimeoutError\<close> is raised:
  the trace keeps the calls that had started by then. The two computations this
  program awaits under a timeout (\<open>query\<close> and the LLM probe) never change the state,
  so the state at cancellation is the state before.
\<close>

fun started :: "world \<Rightarrow> enat \<Rightarrow> event list \<Rightarrow> event list" where
  "started w left [] = []"
| "started w left (ev # evs) =
     ev # (if left < duration w (snd ev) then [] else started w (left - duration w (snd ev)) evs)"

definition wait_for :: "world \<Rightarrow> enat \<Rightarrow> 'a prog \<Rightarrow> 'a prog" where
  "wait_for w timeout m = (\<lambda>s. case m s of (tr, s', r) \<Rightarrow>
       if timeout < elapsed w tr then (started w timeout tr, s, Inl TimeoutError)
       else (tr, s', r))"

section \<open>Operating system and library calls\<close>

text \<open>\<^verbatim>\<open>os.path.exists(p)\<close>\<close>

definition path_exists :: "state \<Rightarrow> string \<Rightarrow> bool" where
  "path_exists s p = (files s p \<noteq> None \<or> p \<in> dirs s)"

text \<open>\<^verbatim>\<open>os.makedirs(p, exist_ok=True)\<close>: raises FileExistsError when \<open>p\<close> is a regular file.\<close>

definition makedirs :: "world \<Rightarrow> ctx \<Rightarrow> string \<Rightarrow> unit prog" where
  \<open>makedirs w c p = (\<lambda>s.
     if files s p \<noteq> None
     then ([(c, Makedirs p)], s,
           Inl (Error (''[Errno 17] File exists: '' @ quoted p)))
     else extern w c (Makedirs p) (\<lambda>s. s\<lparr>dirs := insert p (dirs s)\<rparr>) (\<lambda>_. ()) s)\<close>

text \<open>\<^verbatim>\<open>with open(p, mode) as f: f.write(data)\<close>, or \<^verbatim>\<open>json.dump(data, f, indent=2)\<close>.\<close>

definition write_file :: "world \<Rightarrow> ctx \<Rightarrow> string \<Rightarrow> file_data \<Rightarrow> unit prog" where
  "write_file w c p data =
     extern w c (WriteFile p) (\<lambda>s. s\<lparr>files := (files s)(p \<mapsto> data)\<rparr>) (\<lambda>_. ())"

text \<open>
  \<^verbatim>\<open>PyPDFLoader(file_path).load()\<close>: one document per page, with the metadata
  \<^verbatim>\<open>source\<close> (the path) and \<^verbatim>\<open>page\<close> (counted from 0).
\<close>

definition page_documents :: "string \<Rightarrow> string list \<Rightarrow> document list" where
  "page_documents file_path pages =
     map (\<lambda>(i, t). \<lparr>page_content = t,
                     metadata = [(''source'', PStr file_path), (''page'', PInt (int i))]\<rparr>)
         (List.enumerate 0 pages)"

definition pdf_load :: "world \<Rightarrow> ctx \<Rightarrow> string \<Rightarrow> document list prog" where
  "pdf_load w c file_path =
     bind (extern w c (PdfLoad file_path) (\<lambda>s. s) (\<lambda>s. files s file_path)) (\<lambda>f.
       case f of
         Some (Bytes b) \<Rightarrow> ret (page_documents file_path (pdf_pages w b))
       | _ \<Rightarrow> raise (Error (''File path '' @ file_path @ '' is not a valid file or url'')))"

text \<open>
  \<^verbatim>\<open>RecursiveCharacterTextSplitter(chunk_size, chunk_overlap, length_function=len)
  .split_documents(documents)\<close>: every chunk keeps the metadata of its document.
\<close>

definition chunks_of :: "world \<Rightarrow> nat \<Rightarrow> nat \<Rightarrow> document list \<Rightarrow> document list" where
  "chunks_of w chunk_size chunk_overlap documents =
     concat (map (\<lambda>d. map (\<lambda>t. \<lparr>page_content = t, metadata = metadata d\<rparr>)
                         (split_text w chunk_size chunk_overlap (page_content d)))
                 documents)"

definition split_documents :: "world \<Rightarrow> ctx \<Rightarrow> nat \<Rightarrow> nat \<Rightarrow> document list \<Rightarrow> document list prog" where
  "split_documents w c chunk_size chunk_overlap documents =
     extern w c (SplitDocuments chunk_size chunk_overlap) (\<lambda>s. s)
       (\<lambda>_. chunks_of w chunk_size chunk_overlap documents)"

text \<open>A new FAISS object holding \<open>docs\<close>.\<close>

definition alloc :: "document list \<Rightarrow> nat prog" where
  "alloc docs = (\<lambda>s. ([], s\<lparr>objs := (objs s)(next_ref s := docs), next_ref := Suc (next_ref s)\<rparr>,
                       Inr (next_ref s)))"

text \<open>\<^verbatim>\<open>FAISS.from_documents(chunks, embeddings)\<close>: embeds the chunks into a new index.\<close>

definition from_documents :: "world \<Rightarrow> ctx \<Rightarrow> document list \<Rightarrow> embeddings option \<Rightarrow> nat prog" where
  "from_documents w c chunks emb =
     bind (extern w c FromDocuments (\<lambda>s. s) (\<lambda>_. ())) (\<lambda>_.
       case emb of
         None \<Rightarrow> raise (Error (quoted ''NoneType'' @ '' object has no attribute '' @ quoted ''embed_documents''))
       | Some e \<Rightarrow> alloc chunks)"

text \<open>\<^verbatim>\<open>vectorstore.add_documents(chunks)\<close>: embeds the chunks into the object, in place.\<close>

definition add_documents :: "world \<Rightarrow> ctx \<Rightarrow> nat \<Rightarrow> document list \<Rightarrow> unit prog" where
  "add_documents w c r chunks =
     extern w c AddDocuments (\<lambda>s. s\<lparr>objs := (objs s)(r := objs s r @ chunks)\<rparr>) (\<lambda>_. ())"

text \<open>
  \<^verbatim>\<open>vectorstore.save_local(folder)\<close> writes \<^verbatim>\<open>index.faiss\<close> and \<^verbatim>\<open>index.pkl\<close> in the
  folder; the pair is the one entry \<^verbatim>\<open>index.faiss\<close> here, holding the chunks.
  \<^verbatim>\<open>FAISS.load_local(folder, embeddings, ...)\<close> reads it back into a new object.
\<close>

definition save_local :: "world \<Rightarrow> ctx \<Rightarrow> nat \<Rightarrow> string \<Rightarrow> unit prog" where
  "save_local w c r folder =
     extern w c (SaveLocal folder)
       (\<lambda>s. s\<lparr>files := (files s)(path_join folder ''index.faiss'' \<mapsto> FaissIndex (objs s r))\<rparr>)
       (\<lambda>_. ())"

definition load_local :: "world \<Rightarrow> ctx \<Rightarrow> string \<Rightarrow> nat prog" where
  "load_local w c folder =
     bind (extern w c (LoadLocal folder) (\<lambda>s. s)
             (\<lambda>s. files s (path_join folder ''index.faiss''))) (\<lambda>f.
       case f of
         Some (FaissIndex docs) \<Rightarrow> alloc docs
       | _ \<Rightarrow> raise (Error (''could not read index from '' @ folder)))"

text \<open>
  \<^verbatim>\<open>retriever.get_relevant_documents(question)\<close>: the \<open>k\<close> most similar chunks of the
  FAISS object the retriever refers to. \<^verbatim>\<open>self.retriever\<close> is an attribute that exists
  only once \<^verbatim>\<open>_initialize_qa_chain\<close> has set it.
\<close>

definition get_relevant_documents ::
    "world \<Rightarrow> ctx \<Rightarrow> retriever option \<Rightarrow> string \<Rightarrow> document list prog" where
  "get_relevant_documents w c rt question =
     (case rt of
        None \<Rightarrow> raise (Error (quoted ''RAGService'' @ '' object has no attribute '' @ quoted ''retriever''))
      | Some r \<Rightarrow> extern w c (Retrieve (search_k r) question) (\<lambda>s. s)
                    (\<lambda>s. take (search_k r) (rank w question (objs s (vs_ref r)))))"

definition llm_invoke :: "world \<Rightarrow> ctx \<Rightarrow> llm \<Rightarrow> string \<Rightarrow> string prog" where
  "llm_invoke w c l prompt = extern w c (LlmInvoke prompt) (\<lambda>s. s) (\<lambda>_. llm_reply w l prompt)"

section \<open>rag_service.py: the class RAGService\<close>

text \<open>
  \<^verbatim>\<open>_get_llm\<close> and \<^verbatim>\<open>_get_embeddings\<close> (a leading underscore is not an Isabelle name).
  \<^verbatim>\<open>if not api_key\<close> holds for a missing variable and for an empty one.
\<close>

definition get_llm :: "world \<Rightarrow> exn + llm" where
  "get_llm w =
     (let provider = lower (getenv w ''LLM_PROVIDER'' ''ollama'') in
      if provider = ''openai'' then
        (case environ w ''OPENAI_API_KEY'' of
           None \<Rightarrow> Inl (Error ''OPENAI_API_KEY not set'')
         | Some api_key \<Rightarrow>
             if api_key = [] then Inl (Error ''OPENAI_API_KEY not set'')
             else Inr (ChatOpenAI api_key))
      else if provider = ''ollama'' then
        Inr (Ollama (getenv w ''OLLAMA_BASE_URL'' ''http://localhost:11434'')
                    (getenv w ''OLLAMA_MODEL'' ''mistral''))
      else if provider = ''huggingface'' then
        (let model = getenv w ''HUGGINGFACE_MODEL'' ''mistralai/Mistral-7B-Instruct-v0.2'' in
         case environ w ''HUGGINGFACE_API_KEY'' of
           None \<Rightarrow> Inl (Error ''HUGGINGFACE_API_KEY not set'')
         | Some api_key \<Rightarrow>
             if api_key = [] then Inl (Error ''HUGGINGFACE_API_KEY not set'')
             else Inr (HuggingFaceEndpoint model api_key))
      else Inl (Error (''Unknown LLM provider: '' @ provider)))"

definition get_embeddings :: "world \<Rightarrow> exn + embeddings" where
  "get_embeddings w =
     (let provider = lower (getenv w ''EMBEDDING_PROVIDER'' ''huggingface'') in
      if provider = ''openai'' then
        (case environ w ''OPENAI_API_KEY'' of
           None \<Rightarrow> Inl (Error ''OPENAI_API_KEY not set'')
         | Some api_key \<Rightarrow>
             if api_key = [] then Inl (Error ''OPENAI_API_KEY not set'')
             else Inr (OpenAIEmbeddings api_key))
      else if provider = ''huggingface'' then
        Inr (HuggingFaceEmbeddings
               (getenv w ''EMBEDDING_MODEL'' ''sentence-transformers/all-MiniLM-L6-v2''))
      else Inl (Error (''Unknown embedding provider: '' @ provider)))"

text \<open>
  \<^verbatim>\<open>_initialize_qa_chain\<close>: returns at once unless both the LLM and the vector store
  are set; otherwise builds the retriever with \<^verbatim>\<open>k = 2\<close> and the pipeline
  \<^verbatim>\<open>{"context": retriever | format_docs, "question": RunnablePassthrough()} | prompt |
  self.llm | StrOutputParser()\<close>, then stores the retriever.
\<close>

definition initialize_qa_chain :: "unit prog" where
  "initialize_qa_chain =
     try_except
       (bind get_state (\<lambda>s.
          case llm s of
            None \<Rightarrow> ret ()
          | Some l \<Rightarrow>
             (case vectorstore s of
                None \<Rightarrow> ret ()
              | Some r \<Rightarrow>
                 (let rt = \<lparr>vs_ref = r, search_k = 2\<rparr> in
                  bind (modify (\<lambda>s. s\<lparr>qa_chain :=
                          Some [RetrieveContext rt, PromptTemplate, LlmStage l, StrOutputParser]\<rparr>))
                    (\<lambda>_. modify (\<lambda>s. s\<lparr>retriever := Some rt\<rparr>))))))
       (\<lambda>e. ret ())"

text \<open>
  \<^verbatim>\<open>_initialize\<close>: the body of its \<^verbatim>\<open>try\<close>, then the method; any exception is printed
  and swallowed.
\<close>

definition initialize_body :: "world \<Rightarrow> unit prog" where
  "initialize_body w =
     bind (lift (get_embeddings w)) (\<lambda>emb.
     bind (modify (\<lambda>s. s\<lparr>embeddings := Some emb\<rparr>)) (\<lambda>_.
     bind (lift (get_llm w)) (\<lambda>l.
     bind (modify (\<lambda>s. s\<lparr>llm := Some l\<rparr>)) (\<lambda>_.
     bind get_state (\<lambda>s.
       let index_file = path_join (persist_directory s) ''index.faiss'' in
       if path_exists s index_file then
         bind (load_local w Direct (persist_directory s)) (\<lambda>r.
         bind (modify (\<lambda>s. s\<lparr>vectorstore := Some r\<rparr>)) (\<lambda>_.
         initialize_qa_chain))
       else modify (\<lambda>s. s\<lparr>vectorstore := None\<rparr>))))))"

definition initialize :: "world \<Rightarrow> unit prog" where
  "initialize w = try_except (initialize_body w) (\<lambda>e. ret ())"

text \<open>
  \<^verbatim>\<open>RAGService()\<close>: the constructor, run on the file system, directories and FAISS
  objects of the state it starts from.
\<close>

definition RAGService :: "world \<Rightarrow> unit prog" where
  "RAGService w =
     bind (modify (\<lambda>s. s\<lparr>embeddings := None, vectorstore := None, qa_chain := None,
                          llm := None, retriever := None,
                          persist_directory := ''./faiss_index''\<rparr>))
       (\<lambda>_. initialize w)"

definition is_initialized :: "state \<Rightarrow> bool" where
  "is_initialized s = (qa_chain s \<noteq> None)"

text \<open>
  \<^verbatim>\<open>index_document\<close>: the body of its \<^verbatim>\<open>try\<close>, then the method. It is an
  \<^verbatim>\<open>async def\<close> with no \<^verbatim>\<open>await\<close> in its body: every call runs on the thread of the
  caller.
\<close>

definition index_document_body :: "world \<Rightarrow> string \<Rightarrow> unit prog" where
  "index_document_body w file_path =
     bind (pdf_load w Direct file_path) (\<lambda>documents.
     bind (split_documents w Direct 1000 200 documents) (\<lambda>chunks.
     bind get_state (\<lambda>s.
     bind (case vectorstore s of
             Some r \<Rightarrow> add_documents w Direct r chunks
           | None \<Rightarrow>
               bind (from_documents w Direct chunks (embeddings s)) (\<lambda>r.
                 modify (\<lambda>s. s\<lparr>vectorstore := Some r\<rparr>))) (\<lambda>_.
     bind get_state (\<lambda>s.
     bind (makedirs w Direct (persist_directory s)) (\<lambda>_.
     bind (case vectorstore s of
             Some r \<Rightarrow> save_local w Direct r (persist_directory s)
           | None \<Rightarrow> raise (Error (quoted ''NoneType'' @ '' object has no attribute '' @ quoted ''save_local''))) (\<lambda>_.
     initialize_qa_chain)))))))"

definition index_document :: "world \<Rightarrow> string \<Rightarrow> unit prog" where
  "index_document w file_path =
     try_except (index_document_body w file_path)
       (\<lambda>e. raise (Error (''Error indexing document: '' @ str_exn e)))"

subsection \<open>The QA chain\<close>

text \<open>The prompt of \<^verbatim>\<open>ChatPromptTemplate.from_template\<close>, with both variables filled in.\<close>

definition prompt_text :: "string \<Rightarrow> string \<Rightarrow> string" where
  "prompt_text context question =
     ''You are an HOA assistant. Answer based on the context below. Be concise.\<newline>\<newline>Context: ''
     @ context @ ''\<newline>\<newline>Question: '' @ question @ ''\<newline>\<newline>Answer:''"

text \<open>\<^verbatim>\<open>"\n\n".join(doc.page_content for doc in docs)\<close>\<close>

fun format_docs :: "document list \<Rightarrow> string" where
  "format_docs [] = []"
| "format_docs [d] = page_content d"
| "format_docs (d # ds) = page_content d @ ''\<newline>\<newline>'' @ format_docs ds"

text \<open>
  The values that flow through the pipeline, and one stage applied to one value.
  A stage given a value of another shape raises.
\<close>

datatype chain_val =
    Question string
  | Inputs string string
  | PromptValue string
  | Message string
  | Text string

fun run_stage :: "world \<Rightarrow> ctx \<Rightarrow> runnable \<Rightarrow> chain_val \<Rightarrow> chain_val prog" where
  "run_stage w c (RetrieveContext rt) (Question q) =
     bind (get_relevant_documents w c (Some rt) q) (\<lambda>docs. ret (Inputs (format_docs docs) q))"
| "run_stage w c PromptTemplate (Inputs context q) = ret (PromptValue (prompt_text context q))"
| "run_stage w c (LlmStage l) (PromptValue p) = bind (llm_invoke w c l p) (\<lambda>r. ret (Message r))"
| "run_stage w c StrOutputParser (Message r) = ret (Text r)"
| "run_stage w c _ _ = raise (Error ''unexpected input type'')"

text \<open>\<^verbatim>\<open>a | b | c\<close> runs \<open>a\<close>, then \<open>b\<close> on its output, then \<open>c\<close>.\<close>

fun run_chain :: "world \<Rightarrow> ctx \<Rightarrow> runnable list \<Rightarrow> chain_val \<Rightarrow> chain_val prog" where
  "run_chain w c [] v = ret v"
| "run_chain w c (st # sts) v = bind (run_stage w c st v) (run_chain w c sts)"

definition chain_invoke :: "world \<Rightarrow> ctx \<Rightarrow> runnable list \<Rightarrow> string \<Rightarrow> string prog" where
  "chain_invoke w c chain question =
     bind (run_chain w c chain (Question question)) (\<lambda>v.
       case v of Text a \<Rightarrow> ret a | _ \<Rightarrow> raise (Error ''answer is not a string''))"

subsection \<open>query\<close>

text \<open>
  One entry of the sources list:
  \<^verbatim>\<open>f"{os.path.basename(source)} (Page {page + 1})"\<close> with
  \<^verbatim>\<open>source = doc.metadata.get("source", "Unknown")\<close> and
  \<^verbatim>\<open>page = doc.metadata.get("page", "N/A")\<close>. A source that is not a string and a page
  that is not a number raise TypeError.
\<close>

definition source_entry :: "document \<Rightarrow> exn + string" where
  \<open>source_entry doc =
     (let source = dict_get (metadata doc) ''source'' (PStr ''Unknown'');
          page = dict_get (metadata doc) ''page'' (PStr ''N/A'')
      in case source of
           PInt _ \<Rightarrow> Inl (Error ''expected str, bytes or os.PathLike object, not int'')
         | PStr src \<Rightarrow>
            (case page of
               PStr _ \<Rightarrow> Inl (Error ''can only concatenate str (not "int") to str'')
             | PInt n \<Rightarrow> Inr (basename src @ '' (Page '' @ str_int (n + 1) @ '')'')))\<close>

fun collect_sources :: "document list \<Rightarrow> string list \<Rightarrow> exn + string list" where
  "collect_sources [] sources = Inr sources"
| "collect_sources (doc # docs) sources =
     (case source_entry doc of
        Inl e \<Rightarrow> Inl e
      | Inr entry \<Rightarrow> collect_sources docs (sources @ [entry]))"

record query_result =
  answer :: string
  sources :: "string list"

text \<open>
  \<^verbatim>\<open>query\<close>: the body of its \<^verbatim>\<open>try\<close>, then the method. The check of
  \<^verbatim>\<open>self.qa_chain\<close> is outside the \<^verbatim>\<open>try\<close>. \<^verbatim>\<open>list(set(sources))\<close> keeps one copy of each
  entry, in an order Python does not fix; \<open>remdups\<close> is one.
\<close>

definition query_body :: "world \<Rightarrow> string \<Rightarrow> runnable list \<Rightarrow> query_result prog" where
  "query_body w question chain =
     bind (run_in_executor ServiceExecutor (\<lambda>c. chain_invoke w c chain question)) (\<lambda>a.
     bind get_state (\<lambda>s.
     bind (run_in_executor ServiceExecutor
             (\<lambda>c. get_relevant_documents w c (retriever s) question)) (\<lambda>docs.
     bind (lift (collect_sources docs [])) (\<lambda>srcs.
     ret \<lparr>answer = a, sources = remdups srcs\<rparr>))))"

definition query :: "world \<Rightarrow> string \<Rightarrow> query_result prog" where
  "query w question = (\<lambda>s.
     case qa_chain s of
       None \<Rightarrow> raise (Error
         ''RAG service not initialized. Please upload documents first or check your configuration.'') s
     | Some chain \<Rightarrow>
         try_except (query_body w question chain)
           (\<lambda>e. raise (Error (''Error querying RAG system: '' @ str_exn e))) s)"

section \<open>main.py: the HTTP handlers\<close>

text \<open>
  The timeouts of the two \<^verbatim>\<open>asyncio.wait_for\<close> calls, in milliseconds:
  \<^verbatim>\<open>timeout=120.0\<close> in \<^verbatim>\<open>ask_question\<close>, \<^verbatim>\<open>timeout=10.0\<close> in \<^verbatim>\<open>test_llm\<close>.
\<close>

definition ask_timeout :: enat where
  "ask_timeout = 120000"

definition test_llm_timeout :: enat where
  "test_llm_timeout = 10000"

subsection \<open>POST /api/ask\<close>

definition timeout_detail :: string where
  \<open>timeout_detail = ''Query timed out after 120 seconds. The LLM may be slow or not responding. If using Ollama, ensure it's running and try: 'ollama run mistral' to warm up the model.''\<close>

text \<open>
  \<^verbatim>\<open>ask_question\<close>: \<^verbatim>\<open>except asyncio.TimeoutError\<close> comes first, \<^verbatim>\<open>except Exception\<close>
  takes every other exception. The response model \<^verbatim>\<open>Answer\<close> has the two fields of the
  result of \<open>query\<close>.
\<close>

definition ask_question :: "world \<Rightarrow> string \<Rightarrow> query_result prog" where
  "ask_question w question =
     try_except
       (bind (wait_for w ask_timeout (query w question)) (\<lambda>result.
          ret \<lparr>answer = answer result, sources = sources result\<rparr>))
       (\<lambda>e. case e of
          TimeoutError \<Rightarrow> raise (HTTPException 504 timeout_detail)
        | _ \<Rightarrow> raise (HTTPException 500 (str_exn e)))"

subsection \<open>POST /api/upload-bylaws\<close>

record upload_file =
  filename :: string
  content :: string

record upload_response =
  up_message :: string
  up_filename :: string
  up_size :: nat

text \<open>
  \<^verbatim>\<open>upload_bylaws\<close>: the body of its \<^verbatim>\<open>try\<close>, then the handler. The suffix test is
  before the \<^verbatim>\<open>try\<close>; inside it the directory is made, the content read and tested,
  the file written and indexed.
  \<^verbatim>\<open>except HTTPException: raise\<close> comes before \<^verbatim>\<open>except Exception\<close>.
\<close>

definition upload_body :: "world \<Rightarrow> upload_file \<Rightarrow> upload_response prog" where
  "upload_body w file =
     bind (makedirs w Direct ''documents'') (\<lambda>_.
       if length (content file) = 0
       then raise (HTTPException 400 ''Uploaded file is empty'')
       else
         (let file_path = path_join ''documents'' (filename file) in
          bind (write_file w Direct file_path (Bytes (content file))) (\<lambda>_.
          bind (index_document w file_path) (\<lambda>_.
          ret \<lparr>up_message = ''Document '' @ filename file
                               @ '' uploaded and indexed successfully'',
               up_filename = filename file,
               up_size = length (content file)\<rparr>))))"

definition upload_bylaws :: "world \<Rightarrow> upload_file \<Rightarrow> upload_response prog" where
  "upload_bylaws w file =
     (if \<not> endswith (filename file) ''.pdf''
      then raise (HTTPException 400 ''Only PDF files are allowed'')
      else
        try_except (upload_body w file)
          (\<lambda>e. case e of
             HTTPException status detail \<Rightarrow> raise e
           | _ \<Rightarrow> raise (HTTPException 500 (''Error processing document: '' @ str_exn e))))"

subsection \<open>POST /api/submit-request\<close>

record change_request =
  homeowner_name :: string
  email :: string
  address :: string
  change_type :: string
  description :: string
  urgency :: "string option"

record change_request_response =
  request_id :: string
  status :: string
  submitted_at :: string

text \<open>
  \<^verbatim>\<open>strftime('%Y%m%d%H%M%S')\<close> and \<^verbatim>\<open>isoformat()\<close> of a datetime; the microseconds are
  left out of the ISO format when they are 0.
\<close>

definition pad :: "nat \<Rightarrow> nat \<Rightarrow> string" where
  "pad width n = replicate (width - length (str_nat n)) (CHR ''0'') @ str_nat n"

definition strftime :: "datetime \<Rightarrow> string" where
  "strftime d = str_nat (year d) @ pad 2 (month d) @ pad 2 (day d)
                @ pad 2 (hour d) @ pad 2 (minute d) @ pad 2 (second d)"

definition isoformat :: "datetime \<Rightarrow> string" where
  "isoformat d = pad 4 (year d) @ ''-'' @ pad 2 (month d) @ ''-'' @ pad 2 (day d) @ ''T''
                 @ pad 2 (hour d) @ '':'' @ pad 2 (minute d) @ '':'' @ pad 2 (second d)
                 @ (if microsecond d = 0 then [] else ''.'' @ pad 6 (microsecond d))"

text \<open>
  \<^verbatim>\<open>submit_change_request\<close>: the dict \<^verbatim>\<open>request_data\<close>, the body of the \<^verbatim>\<open>try\<close>, then
  the handler. The clock is read twice: for the request id and for \<^verbatim>\<open>submitted_at\<close>.
  The file holds the dict (the JSON text \<^verbatim>\<open>json.dump\<close> writes is not modelled);
  \<open>None\<close> is JSON \<^verbatim>\<open>null\<close>.
\<close>

definition request_data :: "world \<Rightarrow> change_request \<Rightarrow> string \<Rightarrow> (string \<times> string option) list" where
  "request_data w request req_id =
     [(''request_id'', Some req_id),
      (''homeowner_name'', Some (homeowner_name request)),
      (''email'', Some (email request)),
      (''address'', Some (address request)),
      (''change_type'', Some (change_type request)),
      (''description'', Some (description request)),
      (''urgency'', urgency request),
      (''status'', Some ''submitted''),
      (''submitted_at'', Some (isoformat (now w 1)))]"

definition submit_body :: "world \<Rightarrow> change_request \<Rightarrow> change_request_response prog" where
  "submit_body w request =
     (let request_id = ''REQ-'' @ strftime (now w 0);
          requests_dir = ''requests''
      in bind (makedirs w Direct requests_dir) (\<lambda>_.
         let data = request_data w request request_id
         in bind (write_file w Direct (requests_dir @ ''/'' @ request_id @ ''.json'')
                    (JsonDoc data)) (\<lambda>_.
            ret \<lparr>request_id = request_id,
                 status = ''submitted'',
                 submitted_at = (case dict_get data ''submitted_at'' None of
                                   Some t \<Rightarrow> t | None \<Rightarrow> [])\<rparr>)))"

definition submit_change_request :: "world \<Rightarrow> change_request \<Rightarrow> change_request_response prog" where
  "submit_change_request w request =
     try_except (submit_body w request) (\<lambda>e. raise (HTTPException 500 (str_exn e)))"

subsection \<open>GET /api/health and GET /api/test-llm\<close>

record health =
  h_status :: string
  rag_initialized :: bool
  llm_provider :: string
  model :: string
  has_documents :: bool

definition health_check :: "world \<Rightarrow> state \<Rightarrow> health" where
  "health_check w s =
     (let provider = getenv w ''LLM_PROVIDER'' ''ollama'';
          m = getenv w (if provider = ''ollama'' then ''OLLAMA_MODEL'' else ''HUGGINGFACE_MODEL'')
                ''mistral''
      in \<lparr>h_status = ''healthy'', rag_initialized = is_initialized s,
          llm_provider = provider, model = m, has_documents = (vectorstore s \<noteq> None)\<rparr>)"

record llm_test =
  t_status :: string
  t_message :: string
  test_response :: "string option"

text \<open>
  \<^verbatim>\<open>test_llm\<close>: the probe runs on the default executor
  (\<^verbatim>\<open>run_in_executor(None, ...)\<close>) under a timeout of 10 seconds; every failure is
  answered with status \<^verbatim>\<open>error\<close>, never raised.
\<close>

definition test_llm :: "world \<Rightarrow> llm_test prog" where
  \<open>test_llm w =
     try_except
       (bind get_state (\<lambda>s.
          case llm s of
            None \<Rightarrow> ret \<lparr>t_status = ''error'', t_message = ''LLM not initialized'',
                         test_response = None\<rparr>
          | Some l \<Rightarrow>
              bind (wait_for w test_llm_timeout
                      (run_in_executor DefaultExecutor
                         (\<lambda>c. llm_invoke w c l (''Say 'Hello'' @ [CHR 0x27])))) (\<lambda>response.
                ret \<lparr>t_status = ''success'', t_message = ''LLM is responding'',
                     test_response = Some response\<rparr>)))
       (\<lambda>e. case e of
          TimeoutError \<Rightarrow>
            ret \<lparr>t_status = ''error'',
                 t_message = ''LLM timed out. If using Ollama, make sure it's running: 'ollama serve'' @ [CHR 0x27],
                 test_response = None\<rparr>
        | _ \<Rightarrow> ret \<lparr>t_status = ''error'', t_message = ''LLM test failed: '' @ str_exn e,
                     test_response = None\<rparr>)\<close>

subsection \<open>The app and its routes\<close>

text \<open>
  \<^verbatim>\<open>app = FastAPI(title="HOA Bylaws Lookup API")\<close> leaves \<^verbatim>\<open>openapi_url\<close>,
  \<^verbatim>\<open>docs_url\<close>, \<^verbatim>\<open>swagger_ui_oauth2_redirect_url\<close> and \<^verbatim>\<open>redoc_url\<close> at their defaults,
  so the constructor itself registers four routes (this is the library's behaviour, not
  code of \<^verbatim>\<open>main.py\<close>): the OpenAPI schema, the Swagger page, its OAuth2 redirect and the
  ReDoc page, each for GET and HEAD. Every decorator \<^verbatim>\<open>@app.get(path)\<close> or
  \<^verbatim>\<open>@app.post(path)\<close> then appends one route for its function. A route is its
  methods, its path and its endpoint.
\<close>

datatype http_method = GET | HEAD | POST

datatype endpoint =
    Openapi
  | Swagger_ui_html
  | Swagger_ui_redirect
  | Redoc_html
  | Read_root
  | Ask_question
  | Upload_bylaws
  | Submit_change_request
  | Health_check
  | Test_llm

type_synonym route = "http_method list \<times> string \<times> endpoint"

definition FastAPI :: "route list" where
  "FastAPI =
     [([GET, HEAD], ''/openapi.json'', Openapi),
      ([GET, HEAD], ''/docs'', Swagger_ui_html),
      ([GET, HEAD], ''/docs/oauth2-redirect'', Swagger_ui_redirect),
      ([GET, HEAD], ''/redoc'', Redoc_html)]"

definition app_get :: "string \<Rightarrow> endpoint \<Rightarrow> route list \<Rightarrow> route list" where
  "app_get path f app = app @ [([GET], path, f)]"

definition app_post :: "string \<Rightarrow> endpoint \<Rightarrow> route list \<Rightarrow> route list" where
  "app_post path f app = app @ [([POST], path, f)]"

text \<open>The module \<^verbatim>\<open>main.py\<close>, top to bottom: the constructor, then the six decorators.\<close>

definition app_routes :: "route list" where
  "app_routes =
     (app_get ''/api/test-llm'' Test_llm
     (app_get ''/api/health'' Health_check
     (app_post ''/api/submit-request'' Submit_change_request
     (app_post ''/api/upload-bylaws'' Upload_bylaws
     (app_post ''/api/ask'' Ask_question
     (app_get ''/'' Read_root FastAPI))))))"

text \<open>
  Serving a request: the first route whose path and method match decides the endpoint;
  a path that matches with another method is answered 405, an unknown path 404. The
  body of the request is what the endpoint's parameter is parsed from; a body of another
  shape is answered 422 before the function runs.
\<close>

datatype body =
    No_body
  | Question_body string
  | File_body upload_file
  | Request_body change_request

datatype response =
    Root_response string string
  | Answer_response query_result
  | Upload_response upload_response
  | Submit_response change_request_response
  | Health_response health
  | Test_response llm_test
  | Docs_response

fun find_route :: "route list \<Rightarrow> http_method \<Rightarrow> string \<Rightarrow> endpoint option" where
  "find_route [] m p = None"
| "find_route ((ms, path, f) # rs) m p =
     (if path = p \<and> m \<in> set ms then Some f else find_route rs m p)"

fun call_endpoint :: "world \<Rightarrow> endpoint \<Rightarrow> body \<Rightarrow> response prog" where
  "call_endpoint w Read_root b = ret (Root_response ''HOA Bylaws Lookup API'' ''1.0.0'')"
| "call_endpoint w Ask_question (Question_body q) =
     bind (ask_question w q) (\<lambda>a. ret (Answer_response a))"
| "call_endpoint w Upload_bylaws (File_body f) =
     bind (upload_bylaws w f) (\<lambda>r. ret (Upload_response r))"
| "call_endpoint w Submit_change_request (Request_body r) =
     bind (submit_change_request w r) (\<lambda>r. ret (Submit_response r))"
| "call_endpoint w Health_check b =
     bind get_state (\<lambda>s. ret (Health_response (health_check w s)))"
| "call_endpoint w Test_llm b = bind (test_llm w) (\<lambda>t. ret (Test_response t))"
| "call_endpoint w Openapi b = ret Docs_response"
| "call_endpoint w Swagger_ui_html b = ret Docs_response"
| "call_endpoint w Swagger_ui_redirect b = ret Docs_response"
| "call_endpoint w Redoc_html b = ret Docs_response"
| "call_endpoint w f b = raise (HTTPException 422 ''Unprocessable Entity'')"

definition serve :: "world \<Rightarrow> http_method \<Rightarrow> string \<Rightarrow> body \<Rightarrow> response prog" where
  "serve w m p b =
     (case find_route app_routes m p of
        Some f \<Rightarrow> call_endpoint w f b
      | None \<Rightarrow>
          if p \<in> set (map (\<lambda>(ms, path, f). path) app_routes)
          then raise (HTTPException 405 ''Method Not Allowed'')
          else raise (HTTPException 404 ''Not Found''))"

section \<open>Reachable states and sample inputs\<close>

text \<open>
  The states the program can be in: the state the constructor leaves (\<^verbatim>\<open>main.py\<close> and
  \<^verbatim>\<open>reindex.py\<close> both start with \<^verbatim>\<open>RAGService()\<close>), and the states after a handler or
  a method of the service has run, in any world.
\<close>

inductive reachable :: "state \<Rightarrow> bool" where
  start: "reachable (state_of (RAGService w s0))"
| ask: "reachable s \<Longrightarrow> reachable (state_of (ask_question w question s))"
| upload: "reachable s \<Longrightarrow> reachable (state_of (upload_bylaws w file s))"
| submit: "reachable s \<Longrightarrow> reachable (state_of (submit_change_request w request s))"
| probe: "reachable s \<Longrightarrow> reachable (state_of (test_llm w s))"
| index: "reachable s \<Longrightarrow> reachable (state_of (index_document w file_path s))"
| ask_direct: "reachable s \<Longrightarrow> reachable (state_of (query w question s))"

text \<open>The pipeline \<^verbatim>\<open>_initialize_qa_chain\<close> builds over the FAISS object \<open>r\<close> and the LLM \<open>l\<close>.\<close>

definition built_chain :: "nat \<Rightarrow> llm \<Rightarrow> runnable list" where
  "built_chain r l =
     [RetrieveContext \<lparr>vs_ref = r, search_k = 2\<rparr>, PromptTemplate, LlmStage l, StrOutputParser]"

text \<open>
  The invariant of the service object: the persist directory is the constant of
  \<^verbatim>\<open>__init__\<close>, and a QA chain, when there is one, is the pipeline built over the
  current vector store and LLM, with its retriever stored beside it.
\<close>

definition chain_ok :: "state \<Rightarrow> bool" where
  "chain_ok s =
     (persist_directory s = ''./faiss_index'' \<and>
      (case qa_chain s of
         None \<Rightarrow> True
       | Some chain \<Rightarrow>
          (case llm s of
             None \<Rightarrow> False
           | Some l \<Rightarrow>
              (case vectorstore s of
                 None \<Rightarrow> False
               | Some r \<Rightarrow> chain = built_chain r l
                           \<and> retriever s = Some \<lparr>vs_ref = r, search_k = 2\<rparr>))))"

text \<open>
  Sample inputs: a world where nothing fails and every call takes a second, an empty
  disk, the service constructed there, and a one-page PDF.
\<close>

definition quiet_world :: world where
  "quiet_world =
     \<lparr>environ = Map.empty, fault = (\<lambda>_. None), duration = (\<lambda>_. 1000),
      pdf_pages = (\<lambda>b. [b]), split_text = (\<lambda>size overlap t. [take size t]),
      rank = (\<lambda>q docs. docs), llm_reply = (\<lambda>l p. ''Yes.''),
      now = (\<lambda>n. \<lparr>year = 2024, month = 1, day = 2, hour = 3, minute = 4, second = 5,
                    microsecond = n\<rparr>)\<rparr>"

definition empty_disk :: state where
  "empty_disk =
     \<lparr>files = Map.empty, dirs = {}, objs = (\<lambda>_. []), next_ref = 0, embeddings = None,
      vectorstore = None, qa_chain = None, llm = None, retriever = None,
      persist_directory = []\<rparr>"

definition started_service :: state where
  "started_service = state_of (RAGService quiet_world empty_disk)"

definition bylaws_pdf :: upload_file where
  "bylaws_pdf = \<lparr>filename = ''bylaws.pdf'', content = ''Fences may be six feet high.''\<rparr>"

definition indexed_service :: state where
  "indexed_service = state_of (upload_bylaws quiet_world bylaws_pdf started_service)"

text \<open>
  More sample inputs: a world where every call takes 50 seconds; a world configured for
  OpenAI with no API key; a disk that already holds a saved index; a disk where
  \<^verbatim>\<open>documents\<close> is a regular file; an upload with no content and one that is not a PDF.
\<close>

definition slow_world :: world where
  "slow_world = quiet_world\<lparr>duration := (\<lambda>_. 50000)\<rparr>"



definition blocked_disk :: state where
  "blocked_disk = empty_disk\<lparr>files := [''documents'' \<mapsto> Bytes ''not a directory'']\<rparr>"

definition empty_pdf :: upload_file where
  "empty_pdf = \<lparr>filename = ''empty.pdf'', content = []\<rparr>"

definition notes_txt :: upload_file where
  "notes_txt = \<lparr>filename = ''notes.txt'', content = ''Minutes of the meeting.''\<rparr>"

definition fence_request :: change_request where
  "fence_request =
     \<lparr>homeowner_name = ''Ada Park'', email = ''ada@example.org'', address = ''1 Elm Street'',
      change_type = ''fence'', description = ''Replace the back fence.'',
      urgency = Some ''normal''\<rparr>"

section \<open>Weakest preconditions\<close>

text \<open>
  \<open>wp m Q E s\<close>: the run of \<open>m\<close> from \<open>s\<close> ends in a value, a trace and a state that
  satisfy \<open>Q\<close>, or in an exception, a trace and a state that satisfy \<open>E\<close>.
  \<open>quiet c s tr s'\<close>: the state is still \<open>s\<close> and every call of \<open>tr\<close> ran on \<open>c\<close>.
\<close>

definition wp :: "'a prog \<Rightarrow> ('a \<Rightarrow> event list \<Rightarrow> state \<Rightarrow> bool)
                  \<Rightarrow> (exn \<Rightarrow> event list \<Rightarrow> state \<Rightarrow> bool) \<Rightarrow> state \<Rightarrow> bool" where
  "wp m Q E s = (case m s of (tr, s', r) \<Rightarrow> (case r of Inr x \<Rightarrow> Q x tr s' | Inl e \<Rightarrow> E e tr s'))"

definition quiet :: "ctx \<Rightarrow> state \<Rightarrow> event list \<Rightarrow> state \<Rightarrow> bool" where
  "quiet c s tr s' = (s' = s \<and> list_all (\<lambda>ev. fst ev = c) tr)"

section \<open>Laws of the computations\<close>

lemma outcome_proj [simp]:
  "trace_of (tr, s, r) = tr" "state_of (tr, s, r) = s" "result_of (tr, s, r) = r"
  by (simp_all add: trace_of_def state_of_def result_of_def)

lemma outcome_eq: "out = (trace_of out, state_of out, result_of out)"
  by (simp add: trace_of_def state_of_def result_of_def)

lemma prepend_tuple [simp]: "prepend a (tr, s, r) = (a @ tr, s, r)"
  by (simp add: prepend_def)

lemma wp_outcome:
  "wp m Q E s =
     (case result_of (m s) of
        Inr x \<Rightarrow> Q x (trace_of (m s)) (state_of (m s))
      | Inl e \<Rightarrow> E e (trace_of (m s)) (state_of (m s)))"
  by (cases "m s" rule: prod_cases3) (simp add: wp_def split: sum.splits)

lemma wp_Inr: "wp m Q E s \<Longrightarrow> result_of (m s) = Inr x \<Longrightarrow> Q x (trace_of (m s)) (state_of (m s))"
  by (simp add: wp_outcome)


lemma wp_any: "wp m (\<lambda>x. R) (\<lambda>e. R) s \<Longrightarrow> R (trace_of (m s)) (state_of (m s))"
  by (simp add: wp_outcome split: sum.splits)

lemma wp_mono:
  "wp m Q' E' s \<Longrightarrow> (\<And>x tr s'. Q' x tr s' \<Longrightarrow> Q x tr s') \<Longrightarrow> (\<And>e tr s'. E' e tr s' \<Longrightarrow> E e tr s')
   \<Longrightarrow> wp m Q E s"
  by (cases "m s" rule: prod_cases3) (auto simp: wp_def split: sum.splits)

lemma wp_same: "m s = m' s \<Longrightarrow> wp m Q E s = wp m' Q E s"
  by (simp add: wp_def)

lemma wp_ret [simp]: "wp (ret x) Q E = Q x []"
  by (rule ext) (simp add: wp_def ret_def)

lemma wp_raise [simp]: "wp (raise e) Q E = E e []"
  by (rule ext) (simp add: wp_def raise_def)

lemma wp_lift [simp]:
  "wp (lift r) Q E =
     (\<lambda>s. (\<forall>e. r = Inl e \<longrightarrow> E e [] s) \<and> (\<forall>x. r = Inr x \<longrightarrow> Q x [] s))"
  by (rule ext) (cases r; simp add: wp_def lift_def)

lemma wp_get_state [simp]: "wp get_state Q E = (\<lambda>s. Q s [] s)"
  by (rule ext) (simp add: wp_def get_state_def)

lemma wp_modify [simp]: "wp (modify g) Q E = (\<lambda>s. Q () [] (g s))"
  by (rule ext) (simp add: wp_def modify_def)

lemma wp_bind_apply:
  "wp (bind m f) Q E s =
     wp m (\<lambda>x tr. wp (f x) (\<lambda>y tr'. Q y (tr @ tr')) (\<lambda>e tr'. E e (tr @ tr'))) E s"
  by (cases "m s" rule: prod_cases3)
     (auto simp: wp_def bind_def prepend_def split: sum.splits prod.splits)

lemma wp_bind [simp]:
  "wp (bind m f) Q E =
     wp m (\<lambda>x tr. wp (f x) (\<lambda>y tr'. Q y (tr @ tr')) (\<lambda>e tr'. E e (tr @ tr'))) E"
  by (rule ext) (rule wp_bind_apply)

lemma wp_try_apply:
  "wp (try_except m h) Q E s =
     wp m Q (\<lambda>e tr. wp (h e) (\<lambda>y tr'. Q y (tr @ tr')) (\<lambda>e' tr'. E e' (tr @ tr'))) s"
  by (cases "m s" rule: prod_cases3)
     (auto simp: wp_def try_except_def prepend_def split: sum.splits prod.splits)

lemma wp_try [simp]:
  "wp (try_except m h) Q E =
     wp m Q (\<lambda>e tr. wp (h e) (\<lambda>y tr'. Q y (tr @ tr')) (\<lambda>e' tr'. E e' (tr @ tr')))"
  by (rule ext) (rule wp_try_apply)

lemma wp_extern_apply:
  "wp (extern w c cl upd v) Q E s =
     ((\<forall>m. fault w cl = Some m \<longrightarrow> E (Error m) [(c, cl)] s) \<and>
      (fault w cl = None \<longrightarrow> Q (v s) [(c, cl)] (upd s)))"
  by (simp add: wp_def extern_def split: option.splits)

lemma wp_extern [simp]:
  "wp (extern w c cl upd v) Q E =
     (\<lambda>s.
     ((\<forall>m. fault w cl = Some m \<longrightarrow> E (Error m) [(c, cl)] s) \<and>
      (fault w cl = None \<longrightarrow> Q (v s) [(c, cl)] (upd s))))"
  by (rule ext) (rule wp_extern_apply)

lemma wp_option [simp]:
  "wp (case x of None \<Rightarrow> a | Some y \<Rightarrow> b y) Q E =
     (\<lambda>s. (x = None \<longrightarrow> wp a Q E s) \<and> (\<forall>y. x = Some y \<longrightarrow> wp (b y) Q E s))"
  by (rule ext) (simp split: option.splits)

lemma wp_if [simp]:
  "wp (if c then a else b) Q E = (\<lambda>s. (c \<longrightarrow> wp a Q E s) \<and> (\<not> c \<longrightarrow> wp b Q E s))"
  by (rule ext) simp

lemma wp_run_in_executor [simp]: "wp (run_in_executor e f) Q E = wp (f (Pool e)) Q E"
  by (simp add: run_in_executor_def)

lemma wp_wait_for_apply:
  "wp (wait_for w t m) Q E s =
     wp m (\<lambda>x tr s'. if t < elapsed w tr then E TimeoutError (started w t tr) s else Q x tr s')
          (\<lambda>e tr s'. if t < elapsed w tr then E TimeoutError (started w t tr) s else E e tr s') s"
  by (cases "m s" rule: prod_cases3) (simp add: wp_def wait_for_def split: sum.splits)

lemma wp_wait_for [simp]:
  "wp (wait_for w t m) Q E =
     (\<lambda>s.
     wp m (\<lambda>x tr s'. if t < elapsed w tr then E TimeoutError (started w t tr) s else Q x tr s')
          (\<lambda>e tr s'. if t < elapsed w tr then E TimeoutError (started w t tr) s else E e tr s') s)"
  by (rule ext) (rule wp_wait_for_apply)

section \<open>The calls, one by one\<close>

lemma wp_makedirs_apply:
  "wp (makedirs w c p) Q E s =
     ((files s p \<noteq> None \<longrightarrow>
         E (Error (''[Errno 17] File exists: '' @ quoted p)) [(c, Makedirs p)] s) \<and>
      (files s p = None \<longrightarrow>
         (\<forall>m. fault w (Makedirs p) = Some m \<longrightarrow> E (Error m) [(c, Makedirs p)] s) \<and>
         (fault w (Makedirs p) = None \<longrightarrow> Q () [(c, Makedirs p)] (s\<lparr>dirs := insert p (dirs s)\<rparr>))))"
  by (auto simp: wp_def makedirs_def extern_def split: option.splits)

lemma wp_makedirs [simp]:
  "wp (makedirs w c p) Q E =
     (\<lambda>s.
     ((files s p \<noteq> None \<longrightarrow>
         E (Error (''[Errno 17] File exists: '' @ quoted p)) [(c, Makedirs p)] s) \<and>
      (files s p = None \<longrightarrow>
         (\<forall>m. fault w (Makedirs p) = Some m \<longrightarrow> E (Error m) [(c, Makedirs p)] s) \<and>
         (fault w (Makedirs p) = None \<longrightarrow> Q () [(c, Makedirs p)] (s\<lparr>dirs := insert p (dirs s)\<rparr>)))))"
  by (rule ext) (rule wp_makedirs_apply)

lemma wp_write_file_apply:
  "wp (write_file w c p d) Q E s =
     ((\<forall>m. fault w (WriteFile p) = Some m \<longrightarrow> E (Error m) [(c, WriteFile p)] s) \<and>
      (fault w (WriteFile p) = None \<longrightarrow>
         Q () [(c, WriteFile p)] (s\<lparr>files := (files s)(p \<mapsto> d)\<rparr>)))"
  by (simp add: write_file_def)

lemma wp_write_file [simp]:
  "wp (write_file w c p d) Q E =
     (\<lambda>s.
     ((\<forall>m. fault w (WriteFile p) = Some m \<longrightarrow> E (Error m) [(c, WriteFile p)] s) \<and>
      (fault w (WriteFile p) = None \<longrightarrow>
         Q () [(c, WriteFile p)] (s\<lparr>files := (files s)(p \<mapsto> d)\<rparr>))))"
  by (rule ext) (rule wp_write_file_apply)

lemma wp_pdf_load_apply:
  "wp (pdf_load w c p) Q E s =
     ((\<forall>m. fault w (PdfLoad p) = Some m \<longrightarrow> E (Error m) [(c, PdfLoad p)] s) \<and>
      (fault w (PdfLoad p) = None \<longrightarrow>
         (\<forall>b. files s p = Some (Bytes b) \<longrightarrow>
              Q (page_documents p (pdf_pages w b)) [(c, PdfLoad p)] s) \<and>
         ((\<forall>b. files s p \<noteq> Some (Bytes b)) \<longrightarrow>
              E (Error (''File path '' @ p @ '' is not a valid file or url'')) [(c, PdfLoad p)] s)))"
proof (cases "files s p")
  case None
  then show ?thesis by (simp add: pdf_load_def)
next
  case (Some d)
  then show ?thesis by (cases d) (simp_all add: pdf_load_def)
qed

lemma wp_pdf_load [simp]:
  "wp (pdf_load w c p) Q E =
     (\<lambda>s.
     ((\<forall>m. fault w (PdfLoad p) = Some m \<longrightarrow> E (Error m) [(c, PdfLoad p)] s) \<and>
      (fault w (PdfLoad p) = None \<longrightarrow>
         (\<forall>b. files s p = Some (Bytes b) \<longrightarrow>
              Q (page_documents p (pdf_pages w b)) [(c, PdfLoad p)] s) \<and>
         ((\<forall>b. files s p \<noteq> Some (Bytes b)) \<longrightarrow>
              E (Error (''File path '' @ p @ '' is not a valid file or url'')) [(c, PdfLoad p)] s))))"
  by (rule ext) (rule wp_pdf_load_apply)

lemma wp_split_documents_apply:
  "wp (split_documents w c n k docs) Q E s =
     ((\<forall>m. fault w (SplitDocuments n k) = Some m \<longrightarrow> E (Error m) [(c, SplitDocuments n k)] s) \<and>
      (fault w (SplitDocuments n k) = None \<longrightarrow>
         Q (chunks_of w n k docs) [(c, SplitDocuments n k)] s))"
  by (simp add: split_documents_def)

lemma wp_split_documents [simp]:
  "wp (split_documents w c n k docs) Q E =
     (\<lambda>s.
     ((\<forall>m. fault w (SplitDocuments n k) = Some m \<longrightarrow> E (Error m) [(c, SplitDocuments n k)] s) \<and>
      (fault w (SplitDocuments n k) = None \<longrightarrow>
         Q (chunks_of w n k docs) [(c, SplitDocuments n k)] s)))"
  by (rule ext) (rule wp_split_documents_apply)

lemma wp_alloc_apply:
  "wp (alloc docs) Q E s =
     Q (next_ref s) [] (s\<lparr>objs := (objs s)(next_ref s := docs), next_ref := Suc (next_ref s)\<rparr>)"
  by (simp add: alloc_def wp_def)

lemma wp_alloc [simp]:
  "wp (alloc docs) Q E =
     (\<lambda>s.
     Q (next_ref s) [] (s\<lparr>objs := (objs s)(next_ref s := docs), next_ref := Suc (next_ref s)\<rparr>))"
  by (rule ext) (rule wp_alloc_apply)

lemma wp_from_documents_apply:
  "wp (from_documents w c chunks emb) Q E s =
     ((\<forall>m. fault w FromDocuments = Some m \<longrightarrow> E (Error m) [(c, FromDocuments)] s) \<and>
      (fault w FromDocuments = None \<longrightarrow>
         (emb = None \<longrightarrow>
            E (Error (quoted ''NoneType'' @ '' object has no attribute '' @ quoted ''embed_documents'')) [(c, FromDocuments)] s) \<and>
         (emb \<noteq> None \<longrightarrow>
            Q (next_ref s) [(c, FromDocuments)]
              (s\<lparr>objs := (objs s)(next_ref s := chunks), next_ref := Suc (next_ref s)\<rparr>))))"
  by (auto simp: from_documents_def split: option.splits)

lemma wp_from_documents [simp]:
  "wp (from_documents w c chunks emb) Q E =
     (\<lambda>s.
     ((\<forall>m. fault w FromDocuments = Some m \<longrightarrow> E (Error m) [(c, FromDocuments)] s) \<and>
      (fault w FromDocuments = None \<longrightarrow>
         (emb = None \<longrightarrow>
            E (Error (quoted ''NoneType'' @ '' object has no attribute '' @ quoted ''embed_documents'')) [(c, FromDocuments)] s) \<and>
         (emb \<noteq> None \<longrightarrow>
            Q (next_ref s) [(c, FromDocuments)]
              (s\<lparr>objs := (objs s)(next_ref s := chunks), next_ref := Suc (next_ref s)\<rparr>)))))"
  by (rule ext) (rule wp_from_documents_apply)

lemma wp_add_documents_apply:
  "wp (add_documents w c r chunks) Q E s =
     ((\<forall>m. fault w AddDocuments = Some m \<longrightarrow> E (Error m) [(c, AddDocuments)] s) \<and>
      (fault w AddDocuments = None \<longrightarrow>
         Q () [(c, AddDocuments)] (s\<lparr>objs := (objs s)(r := objs s r @ chunks)\<rparr>)))"
  by (simp add: add_documents_def)

lemma wp_add_documents [simp]:
  "wp (add_documents w c r chunks) Q E =
     (\<lambda>s.
     ((\<forall>m. fault w AddDocuments = Some m \<longrightarrow> E (Error m) [(c, AddDocuments)] s) \<and>
      (fault w AddDocuments = None \<longrightarrow>
         Q () [(c, AddDocuments)] (s\<lparr>objs := (objs s)(r := objs s r @ chunks)\<rparr>))))"
  by (rule ext) (rule wp_add_documents_apply)

lemma wp_save_local_apply:
  "wp (save_local w c r folder) Q E s =
     ((\<forall>m. fault w (SaveLocal folder) = Some m \<longrightarrow> E (Error m) [(c, SaveLocal folder)] s) \<and>
      (fault w (SaveLocal folder) = None \<longrightarrow>
         Q () [(c, SaveLocal folder)]
           (s\<lparr>files := (files s)(path_join folder ''index.faiss'' \<mapsto> FaissIndex (objs s r))\<rparr>)))"
  by (simp add: save_local_def)

lemma wp_save_local [simp]:
  "wp (save_local w c r folder) Q E =
     (\<lambda>s.
     ((\<forall>m. fault w (SaveLocal folder) = Some m \<longrightarrow> E (Error m) [(c, SaveLocal folder)] s) \<and>
      (fault w (SaveLocal folder) = None \<longrightarrow>
         Q () [(c, SaveLocal folder)]
           (s\<lparr>files := (files s)(path_join folder ''index.faiss'' \<mapsto> FaissIndex (objs s r))\<rparr>))))"
  by (rule ext) (rule wp_save_local_apply)

lemma wp_load_local_apply:
  "wp (load_local w c folder) Q E s =
     ((\<forall>m. fault w (LoadLocal folder) = Some m \<longrightarrow> E (Error m) [(c, LoadLocal folder)] s) \<and>
      (fault w (LoadLocal folder) = None \<longrightarrow>
         (\<forall>docs. files s (path_join folder ''index.faiss'') = Some (FaissIndex docs) \<longrightarrow>
            Q (next_ref s) [(c, LoadLocal folder)]
              (s\<lparr>objs := (objs s)(next_ref s := docs), next_ref := Suc (next_ref s)\<rparr>)) \<and>
         ((\<forall>docs. files s (path_join folder ''index.faiss'') \<noteq> Some (FaissIndex docs)) \<longrightarrow>
            E (Error (''could not read index from '' @ folder)) [(c, LoadLocal folder)] s)))"
proof (cases "files s (path_join folder ''index.faiss'')")
  case None
  then show ?thesis by (simp add: load_local_def)
next
  case (Some d)
  then show ?thesis by (cases d) (simp_all add: load_local_def)
qed

lemma wp_load_local [simp]:
  "wp (load_local w c folder) Q E =
     (\<lambda>s.
     ((\<forall>m. fault w (LoadLocal folder) = Some m \<longrightarrow> E (Error m) [(c, LoadLocal folder)] s) \<and>
      (fault w (LoadLocal folder) = None \<longrightarrow>
         (\<forall>docs. files s (path_join folder ''index.faiss'') = Some (FaissIndex docs) \<longrightarrow>
            Q (next_ref s) [(c, LoadLocal folder)]
              (s\<lparr>objs := (objs s)(next_ref s := docs), next_ref := Suc (next_ref s)\<rparr>)) \<and>
         ((\<forall>docs. files s (path_join folder ''index.faiss'') \<noteq> Some (FaissIndex docs)) \<longrightarrow>
            E (Error (''could not read index from '' @ folder)) [(c, LoadLocal folder)] s))))"
  by (rule ext) (rule wp_load_local_apply)

lemma wp_get_relevant_documents_apply:
  "wp (get_relevant_documents w c rt q) Q E s =
     ((rt = None \<longrightarrow> E (Error (quoted ''RAGService'' @ '' object has no attribute '' @ quoted ''retriever'')) [] s) \<and>
      (\<forall>r. rt = Some r \<longrightarrow>
         (\<forall>m. fault w (Retrieve (search_k r) q) = Some m \<longrightarrow>
              E (Error m) [(c, Retrieve (search_k r) q)] s) \<and>
         (fault w (Retrieve (search_k r) q) = None \<longrightarrow>
              Q (take (search_k r) (rank w q (objs s (vs_ref r))))
                [(c, Retrieve (search_k r) q)] s)))"
  by (simp add: get_relevant_documents_def)

lemma wp_get_relevant_documents [simp]:
  "wp (get_relevant_documents w c rt q) Q E =
     (\<lambda>s.
     ((rt = None \<longrightarrow> E (Error (quoted ''RAGService'' @ '' object has no attribute '' @ quoted ''retriever'')) [] s) \<and>
      (\<forall>r. rt = Some r \<longrightarrow>
         (\<forall>m. fault w (Retrieve (search_k r) q) = Some m \<longrightarrow>
              E (Error m) [(c, Retrieve (search_k r) q)] s) \<and>
         (fault w (Retrieve (search_k r) q) = None \<longrightarrow>
              Q (take (search_k r) (rank w q (objs s (vs_ref r))))
                [(c, Retrieve (search_k r) q)] s))))"
  by (rule ext) (rule wp_get_relevant_documents_apply)

lemma wp_llm_invoke_apply:
  "wp (llm_invoke w c l p) Q E s =
     ((\<forall>m. fault w (LlmInvoke p) = Some m \<longrightarrow> E (Error m) [(c, LlmInvoke p)] s) \<and>
      (fault w (LlmInvoke p) = None \<longrightarrow> Q (llm_reply w l p) [(c, LlmInvoke p)] s))"
  by (simp add: llm_invoke_def)

lemma wp_llm_invoke [simp]:
  "wp (llm_invoke w c l p) Q E =
     (\<lambda>s.
     ((\<forall>m. fault w (LlmInvoke p) = Some m \<longrightarrow> E (Error m) [(c, LlmInvoke p)] s) \<and>
      (fault w (LlmInvoke p) = None \<longrightarrow> Q (llm_reply w l p) [(c, LlmInvoke p)] s)))"
  by (rule ext) (rule wp_llm_invoke_apply)

lemma wp_initialize_qa_chain [simp]:
  "wp initialize_qa_chain Q E =
     (\<lambda>s. (llm s = None \<or> vectorstore s = None \<longrightarrow> Q () [] s) \<and>
          (\<forall>l r. llm s = Some l \<longrightarrow> vectorstore s = Some r \<longrightarrow>
             Q () [] (s\<lparr>qa_chain := Some (built_chain r l),
                         retriever := Some \<lparr>vs_ref = r, search_k = 2\<rparr>\<rparr>)))"
  by (rule ext) (auto simp: initialize_qa_chain_def built_chain_def Let_def)

section \<open>The invariant\<close>

lemma chain_ok_frame [simp]:
  "chain_ok (s\<lparr>files := f\<rparr>) = chain_ok s"
  "chain_ok (s\<lparr>dirs := d\<rparr>) = chain_ok s"
  "chain_ok (s\<lparr>objs := ob\<rparr>) = chain_ok s"
  "chain_ok (s\<lparr>next_ref := n\<rparr>) = chain_ok s"
  "chain_ok (s\<lparr>embeddings := em\<rparr>) = chain_ok s"
  by (simp_all add: chain_ok_def split: option.splits)

lemma index_body_ok [simp]:
  "chain_ok s \<Longrightarrow> wp (index_document_body w p) (\<lambda>u tr. chain_ok) (\<lambda>e tr. chain_ok) s"
  apply (simp add: index_document_body_def)
  apply (auto simp: chain_ok_def split: option.splits)
  done

lemma wp_index_document [simp]:
  "wp (index_document w p) Q E s =
     wp (index_document_body w p) Q
        (\<lambda>e. E (Error (''Error indexing document: '' @ str_exn e))) s"
  by (simp add: index_document_def)

lemma upload_ok:
  "chain_ok s \<Longrightarrow> wp (upload_bylaws w f) (\<lambda>x tr. chain_ok) (\<lambda>e tr. chain_ok) s"
  by (simp add: upload_bylaws_def upload_body_def Let_def)

lemma submit_ok:
  "chain_ok s \<Longrightarrow> wp (submit_change_request w rq) (\<lambda>x tr. chain_ok) (\<lambda>e tr. chain_ok) s"
  by (simp add: submit_change_request_def submit_body_def Let_def)

lemma start_ok: "wp (RAGService w) (\<lambda>x tr. chain_ok) (\<lambda>e tr. chain_ok) s"
  apply (simp add: RAGService_def initialize_def initialize_body_def Let_def)
  apply (auto simp: chain_ok_def)
  done

section \<open>Queries leave the state alone and run on one thread\<close>

lemma quiet_simps [simp]:
  "quiet c s [] s' = (s' = s)"
  "quiet c s ((c', cl) # tr) s' = (c' = c \<and> quiet c s tr s')"
  by (auto simp: quiet_def)

lemma run_stage_quiet:
  "wp (run_stage w c st v) (\<lambda>x. quiet c s) (\<lambda>e. quiet c s) s"
  by (cases "(w, c, st, v)" rule: run_stage.cases) simp_all

lemma run_chain_quiet:
  "wp (run_chain w c chain v) (\<lambda>x. quiet c s) (\<lambda>e. quiet c s) s"
proof (induction chain arbitrary: v)
  case Nil
  then show ?case by simp
next
  case (Cons st sts)
  have step: "wp (run_chain w c sts x) (\<lambda>y tr'. quiet c s (tr @ tr'))
                 (\<lambda>e tr'. quiet c s (tr @ tr')) s'"
    if "quiet c s tr s'" for x tr s'
  proof -
    from that have eq: "s' = s" and tr: "list_all (\<lambda>ev. fst ev = c) tr"
      by (simp_all add: quiet_def)
    have "wp (run_chain w c sts x) (\<lambda>y tr'. quiet c s (tr @ tr'))
            (\<lambda>e tr'. quiet c s (tr @ tr')) s"
      by (rule wp_mono [OF Cons.IH [of x]]) (simp_all add: quiet_def tr)
    then show ?thesis by (simp add: eq)
  qed
  show ?case
    by (simp, rule wp_mono [OF run_stage_quiet]) (simp_all add: step)
qed

lemma chain_invoke_quiet:
  "wp (chain_invoke w c chain q) (\<lambda>x. quiet c s) (\<lambda>e. quiet c s) s"
  apply (simp add: chain_invoke_def)
  apply (rule wp_mono [OF run_chain_quiet])
   apply (simp_all split: chain_val.splits)
  done

lemma wp_query_apply:
  "wp (query w q) Q E s =
     ((qa_chain s = None \<longrightarrow>
         E (Error ''RAG service not initialized. Please upload documents first or check your configuration.'') [] s) \<and>
      (\<forall>chain. qa_chain s = Some chain \<longrightarrow>
         wp (query_body w q chain) Q
            (\<lambda>e. E (Error (''Error querying RAG system: '' @ str_exn e))) s))"
proof -
  have "wp (query w q) Q E s =
        wp (case qa_chain s of
              None \<Rightarrow> raise (Error
                ''RAG service not initialized. Please upload documents first or check your configuration.'')
            | Some chain \<Rightarrow>
                try_except (query_body w q chain)
                  (\<lambda>e. raise (Error (''Error querying RAG system: '' @ str_exn e)))) Q E s"
    by (rule wp_same) (simp add: query_def split: option.splits)
  then show ?thesis by simp
qed

lemma query_body_quiet:
  "wp (query_body w q chain) (\<lambda>x. quiet (Pool ServiceExecutor) s)
      (\<lambda>e. quiet (Pool ServiceExecutor) s) s"
  apply (simp add: query_body_def)
  apply (rule wp_mono [OF chain_invoke_quiet])
   apply (auto simp: quiet_def)
  done

lemma query_quiet:
  "wp (query w q) (\<lambda>x. quiet (Pool ServiceExecutor) s) (\<lambda>e. quiet (Pool ServiceExecutor) s) s"
  by (simp add: wp_query_apply query_body_quiet)

lemma wp_exn [simp]:
  "wp (case e of Error m \<Rightarrow> a m | TimeoutError \<Rightarrow> b | HTTPException x y \<Rightarrow> c x y) Q E =
     (case e of Error m \<Rightarrow> wp (a m) Q E | TimeoutError \<Rightarrow> wp b Q E
      | HTTPException x y \<Rightarrow> wp (c x y) Q E)"
  by (cases e) simp_all

lemma ask_keeps: "wp (ask_question w q) (\<lambda>x tr s'. s' = s) (\<lambda>e tr s'. s' = s) s"
  apply (simp add: ask_question_def)
  apply (rule wp_mono [OF query_quiet])
   apply (auto simp: quiet_def split: exn.splits)
  done

lemma test_llm_keeps: "wp (test_llm w) (\<lambda>x tr s'. s' = s) (\<lambda>e tr s'. s' = s) s"
  by (simp add: test_llm_def split: exn.splits)

lemma reachable_chain_ok: "reachable s \<Longrightarrow> chain_ok s"
proof (induction rule: reachable.induct)
  case (start w s0)
  show ?case using wp_any [OF start_ok] .
next
  case (ask s w q)
  from wp_any [OF ask_keeps [of w q s]] show ?case using ask.IH by simp
next
  case (upload s w f)
  from wp_any [OF upload_ok [OF upload.IH]] show ?case .
next
  case (submit s w rq)
  from wp_any [OF submit_ok [OF submit.IH]] show ?case .
next
  case (probe s w)
  from wp_any [OF test_llm_keeps [of w s]] show ?case using probe.IH by simp
next
  case (index s w p)
  have "wp (index_document w p) (\<lambda>u tr. chain_ok) (\<lambda>e tr. chain_ok) s"
    using index.IH by simp
  from wp_any [OF this] show ?case .
next
  case (ask_direct s w q)
  from wp_any [OF query_quiet [of w q s]] show ?case using ask_direct.IH by (simp add: quiet_def)
qed

section \<open>Facts about the sample inputs\<close>

lemma indexed_reachable: "reachable indexed_service"
  unfolding indexed_service_def started_service_def
  by (intro reachable.upload reachable.start)

lemma indexed_initialized: "is_initialized indexed_service"
  by code_simp

section \<open>Reading outcomes off weakest preconditions\<close>


lemma result_wp:
  "(result_of (m s) = c) = wp m (\<lambda>x tr s'. Inr x = c) (\<lambda>e tr s'. Inl e = c) s"
  by (simp add: wp_outcome split: sum.splits)

lemma trace_wp:
  "(trace_of (m s) = c) = wp m (\<lambda>x tr s'. tr = c) (\<lambda>e tr s'. tr = c) s"
  by (simp add: wp_outcome split: sum.splits)

lemma outcome_wp:
  "(m s = c) = wp m (\<lambda>x tr s'. (tr, s', Inr x) = c) (\<lambda>e tr s'. (tr, s', Inl e) = c) s"
  by (cases "m s" rule: prod_cases3) (auto simp: wp_def split: sum.splits)

section \<open>More facts about the sample inputs\<close>

lemma started_fields:
  "qa_chain started_service = None"
  "llm started_service = Some (Ollama ''http://localhost:11434'' ''mistral'')"
  "files started_service ''documents'' = None"
  by code_simp+

lemma indexed_fields:
  "qa_chain indexed_service = Some (built_chain 0 (Ollama ''http://localhost:11434'' ''mistral''))"
  "retriever indexed_service = Some \<lparr>vs_ref = 0, search_k = 2\<rparr>"
  "vectorstore indexed_service = Some 0"
  "llm indexed_service = Some (Ollama ''http://localhost:11434'' ''mistral'')"
  "objs indexed_service 0 =
     [\<lparr>page_content = ''Fences may be six feet high.'',
       metadata = [(''source'', PStr ''documents/bylaws.pdf''), (''page'', PInt 0)]\<rparr>]"
  by code_simp+

lemma quiet_world_simps [simp]:
  "fault quiet_world cl = None" "rank quiet_world q docs = docs"
  "llm_reply quiet_world l p = ''Yes.''" "duration quiet_world cl = 1000"
  by (simp_all add: quiet_world_def)

lemma slow_world_simps [simp]:
  "fault slow_world cl = None" "rank slow_world q docs = docs"
  "llm_reply slow_world l p = ''Yes.''" "duration slow_world cl = 50000"
  by (simp_all add: slow_world_def quiet_world_def)

lemma fence_source_entry:
  "source_entry
     \<lparr>page_content = ''Fences may be six feet high.'',
      metadata = [(''source'', PStr ''documents/bylaws.pdf''), (''page'', PInt 0)]\<rparr> =
   Inr ''bylaws.pdf (Page 1)''"
  by code_simp

lemma indexed_query:
  assumes "fault w = (\<lambda>_. None)" and "rank w = (\<lambda>q docs. docs)" and "llm_reply w = (\<lambda>l p. ''Yes.'')"
  shows "query w ''May I build a fence?'' indexed_service =
     ([(Pool ServiceExecutor, Retrieve 2 ''May I build a fence?''),
       (Pool ServiceExecutor,
        LlmInvoke (prompt_text ''Fences may be six feet high.'' ''May I build a fence?'')),
       (Pool ServiceExecutor, Retrieve 2 ''May I build a fence?'')],
      indexed_service,
      Inr \<lparr>answer = ''Yes.'', sources = [''bylaws.pdf (Page 1)'']\<rparr>)"
  by (subst outcome_wp)
     (simp add: wp_query_apply query_body_def chain_invoke_def indexed_fields built_chain_def
        assms fence_source_entry)

section \<open>What the handlers and the methods do\<close>

lemma submit_wp:
  "wp (submit_change_request w rq)
      (\<lambda>resp tr s'.
         tr = [(Direct, Makedirs ''requests''),
               (Direct, WriteFile (''requests/'' @ request_id resp @ ''.json''))] \<and>
         s' = s\<lparr>dirs := insert ''requests'' (dirs s),
                 files := (files s)(''requests/'' @ request_id resp @ ''.json'' \<mapsto>
                   JsonDoc [(''request_id'', Some (request_id resp)),
                            (''homeowner_name'', Some (homeowner_name rq)),
                            (''email'', Some (email rq)),
                            (''address'', Some (address rq)),
                            (''change_type'', Some (change_type rq)),
                            (''description'', Some (description rq)),
                            (''urgency'', urgency rq),
                            (''status'', Some (status resp)),
                            (''submitted_at'', Some (submitted_at resp))])\<rparr> \<and>
         status resp = ''submitted'')
      (\<lambda>e tr s'. True) s"
  by (simp add: submit_change_request_def submit_body_def Let_def request_data_def dict_get_def)



lemma upload_not_pdf:
  "\<not> endswith (filename f) ''.pdf'' \<Longrightarrow>
   upload_bylaws w f s = ([], s, Inl (HTTPException 400 ''Only PDF files are allowed''))"
  by (simp add: upload_bylaws_def raise_def)

lemma upload_empty_wp:
  "endswith (filename f) ''.pdf'' \<Longrightarrow> content f = [] \<Longrightarrow>
   wp (upload_bylaws w f) (\<lambda>x tr s'. False)
      (\<lambda>e tr s'.
         tr = [(Direct, Makedirs ''documents'')] \<and>
         (if files s ''documents'' = None \<and> fault w (Makedirs ''documents'') = None
          then e = HTTPException 400 ''Uploaded file is empty'' \<and>
               s' = s\<lparr>dirs := insert ''documents'' (dirs s)\<rparr>
          else (\<exists>m. e = HTTPException 500 (''Error processing document: '' @ m)) \<and> s' = s)) s"
  by (simp add: upload_bylaws_def upload_body_def)

lemma query_success:
  assumes "chain_ok s"
  shows "wp (query w q)
      (\<lambda>res tr s'. \<exists>r l srcs.
         vectorstore s = Some r \<and> llm s = Some l \<and> qa_chain s = Some (built_chain r l) \<and>
         tr = [(Pool ServiceExecutor, Retrieve 2 q),
               (Pool ServiceExecutor,
                LlmInvoke (prompt_text (format_docs (take 2 (rank w q (objs s r)))) q)),
               (Pool ServiceExecutor, Retrieve 2 q)] \<and>
         answer res = llm_reply w l (prompt_text (format_docs (take 2 (rank w q (objs s r)))) q) \<and>
         collect_sources (take 2 (rank w q (objs s r))) [] = Inr srcs \<and>
         sources res = remdups srcs)
      (\<lambda>e tr s'. True) s"
proof (cases "qa_chain s")
  case None
  then show ?thesis by (simp add: wp_query_apply)
next
  case (Some chain)
  with assms obtain r l where
    "vectorstore s = Some r" "llm s = Some l" "chain = built_chain r l"
    "retriever s = Some \<lparr>vs_ref = r, search_k = 2\<rparr>"
    by (auto simp: chain_ok_def split: option.splits)
  with Some show ?thesis
    by (simp add: wp_query_apply query_body_def chain_invoke_def built_chain_def)
qed

lemma query_on_pool:
  "list_all (\<lambda>ev. fst ev = Pool ServiceExecutor) (trace_of (query w q s))"
  using wp_any [OF query_quiet [of w q s]] by (simp add: quiet_def)

lemma probe_on_pool:
  "list_all (\<lambda>ev. fst ev = Pool DefaultExecutor) (trace_of (test_llm w s))"
proof -
  have "wp (test_llm w) (\<lambda>x tr s'. list_all (\<lambda>ev. fst ev = Pool DefaultExecutor) tr)
          (\<lambda>e tr s'. list_all (\<lambda>ev. fst ev = Pool DefaultExecutor) tr) s"
    by (simp add: test_llm_def split: exn.splits)
  from wp_any [OF this] show ?thesis .
qed

lemma index_direct:
  "list_all (\<lambda>ev. fst ev = Direct) (trace_of (index_document w p s))"
proof -
  have "wp (index_document w p) (\<lambda>x tr s'. list_all (\<lambda>ev. fst ev = Direct) tr)
          (\<lambda>e tr s'. list_all (\<lambda>ev. fst ev = Direct) tr) s"
    by (simp add: index_document_def index_document_body_def)
  from wp_any [OF this] show ?thesis .
qed

lemma index_body_success:
  "wp (index_document_body w p)
      (\<lambda>u tr s'. \<exists>b.
         files s p = Some (Bytes b) \<and>
         tr = [(Direct, PdfLoad p), (Direct, SplitDocuments 1000 200),
               (Direct, if vectorstore s = None then FromDocuments else AddDocuments),
               (Direct, Makedirs (persist_directory s)),
               (Direct, SaveLocal (persist_directory s))] \<and>
         vectorstore s' = Some (case vectorstore s of None \<Rightarrow> next_ref s | Some r \<Rightarrow> r) \<and>
         objs s' (case vectorstore s of None \<Rightarrow> next_ref s | Some r \<Rightarrow> r) =
           (case vectorstore s of None \<Rightarrow> [] | Some r \<Rightarrow> objs s r)
           @ chunks_of w 1000 200 (page_documents p (pdf_pages w b)) \<and>
         files s' (path_join (persist_directory s) ''index.faiss'') =
           Some (FaissIndex (objs s' (case vectorstore s of None \<Rightarrow> next_ref s | Some r \<Rightarrow> r))))
      (\<lambda>e tr s'. True) s"
  by (simp add: index_document_body_def)

lemma index_success:
  assumes "result_of (index_document w p s) = Inr u"
  shows "\<exists>b. files s p = Some (Bytes b) \<and>
         trace_of (index_document w p s) =
           [(Direct, PdfLoad p), (Direct, SplitDocuments 1000 200),
            (Direct, if vectorstore s = None then FromDocuments else AddDocuments),
            (Direct, Makedirs (persist_directory s)),
            (Direct, SaveLocal (persist_directory s))] \<and>
         vectorstore (state_of (index_document w p s)) =
           Some (case vectorstore s of None \<Rightarrow> next_ref s | Some r \<Rightarrow> r) \<and>
         objs (state_of (index_document w p s))
              (case vectorstore s of None \<Rightarrow> next_ref s | Some r \<Rightarrow> r) =
           (case vectorstore s of None \<Rightarrow> [] | Some r \<Rightarrow> objs s r)
           @ chunks_of w 1000 200 (page_documents p (pdf_pages w b)) \<and>
         files (state_of (index_document w p s)) (path_join (persist_directory s) ''index.faiss'') =
           Some (FaissIndex (objs (state_of (index_document w p s))
                  (case vectorstore s of None \<Rightarrow> next_ref s | Some r \<Rightarrow> r)))"
proof -
  have "wp (index_document w p)
      (\<lambda>u tr s'. \<exists>b.
         files s p = Some (Bytes b) \<and>
         tr = [(Direct, PdfLoad p), (Direct, SplitDocuments 1000 200),
               (Direct, if vectorstore s = None then FromDocuments else AddDocuments),
               (Direct, Makedirs (persist_directory s)),
               (Direct, SaveLocal (persist_directory s))] \<and>
         vectorstore s' = Some (case vectorstore s of None \<Rightarrow> next_ref s | Some r \<Rightarrow> r) \<and>
         objs s' (case vectorstore s of None \<Rightarrow> next_ref s | Some r \<Rightarrow> r) =
           (case vectorstore s of None \<Rightarrow> [] | Some r \<Rightarrow> objs s r)
           @ chunks_of w 1000 200 (page_documents p (pdf_pages w b)) \<and>
         files s' (path_join (persist_directory s) ''index.faiss'') =
           Some (FaissIndex (objs s' (case vectorstore s of None \<Rightarrow> next_ref s | Some r \<Rightarrow> r))))
      (\<lambda>e tr s'. True) s"
    using index_body_success [of w p s] by simp
  from wp_Inr [OF this assms] show ?thesis .
qed


lemma source_entry_Inr:
  "source_entry d = Inr entry \<Longrightarrow>
   \<exists>src n. dict_get (metadata d) ''source'' (PStr ''Unknown'') = PStr src \<and>
           map_of (metadata d) ''page'' = Some (PInt n) \<and>
           entry = basename src @ '' (Page '' @ str_int (n + 1) @ '')''"
  by (auto simp: source_entry_def Let_def dict_get_def split: pyval.splits option.splits)

lemma collect_sources_Inr:
  "collect_sources docs acc = Inr srcs \<Longrightarrow>
   length srcs = length acc + length docs \<and>
   (\<forall>entry \<in> set srcs. entry \<in> set acc \<or> (\<exists>d \<in> set docs. source_entry d = Inr entry))"
proof (induction docs arbitrary: acc)
  case Nil
  then show ?case by auto
next
  case (Cons d docs)
  then show ?case
    by (cases "source_entry d") (fastforce dest: Cons.IH)+
qed

section \<open>Questions before any document is indexed\<close>

text \<open>
  Claim C9: when no QA chain exists, \<open>query\<close> raises instead of answering, before any
  call is made, and \<open>ask_question\<close> turns that exception into HTTP 500 with the
  message of the exception as detail.
\<close>

theorem C9_uninitialized_query:
  "qa_chain s = None \<Longrightarrow>
   query w question s =
     ([], s, Inl (Error ''RAG service not initialized. Please upload documents first or check your configuration.'')) \<and>
   ask_question w question s =
     ([], s, Inl (HTTPException 500 ''RAG service not initialized. Please upload documents first or check your configuration.''))"
  by (simp add: query_def ask_question_def try_except_def bind_def wait_for_def elapsed_def
        ask_timeout_def raise_def)

theorem C9_uninitialized_query_witness:
  "qa_chain started_service = None \<and>
   query quiet_world ''May I build a fence?'' started_service =
     ([], started_service, Inl (Error ''RAG service not initialized. Please upload documents first or check your configuration.'')) \<and>
   ask_question quiet_world ''May I build a fence?'' started_service =
     ([], started_service, Inl (HTTPException 500 ''RAG service not initialized. Please upload documents first or check your configuration.''))"
proof -
  have h: "qa_chain started_service = None"
    by code_simp
  show ?thesis
    using h C9_uninitialized_query [OF h, of quiet_world "''May I build a fence?''"] by simp
qed

section \<open>The initialization invariant\<close>

text \<open>
  Claim C8: in every reachable state, when \<open>is_initialized\<close> holds (the QA chain is
  set), the LLM and the vector store are set too.
\<close>

theorem C8_initialized_invariant:
  "reachable s \<Longrightarrow> is_initialized s \<Longrightarrow> llm s \<noteq> None \<and> vectorstore s \<noteq> None"
  using reachable_chain_ok [of s]
  by (auto simp: is_initialized_def chain_ok_def split: option.splits)

theorem C8_initialized_invariant_witness:
  "reachable indexed_service \<and> is_initialized indexed_service \<and>
   llm indexed_service \<noteq> None \<and> vectorstore indexed_service \<noteq> None"
  using C8_initialized_invariant [OF indexed_reachable indexed_initialized]
    indexed_reachable indexed_initialized by simp

section \<open>The routes of the app\<close>

text \<open>
  Claim C1 gives the app exactly four routes. The set of routes registered on the app
  does not have four elements.
\<close>

theorem C1_four_routes_counterexample: "card (set app_routes) \<noteq> 4"
  by (simp add: app_routes_def app_get_def app_post_def FastAPI_def)

text \<open>
  Claim C1, amended: the set of routes registered on the app has exactly ten elements.
  Four are the ones \<^verbatim>\<open>FastAPI(title=...)\<close> registers itself (\<^verbatim>\<open>/openapi.json\<close>, \<^verbatim>\<open>/docs\<close>,
  \<^verbatim>\<open>/docs/oauth2-redirect\<close>, \<^verbatim>\<open>/redoc\<close>); the other six are the ones of \<^verbatim>\<open>main.py\<close>:
  \<^verbatim>\<open>GET /\<close>, \<^verbatim>\<open>POST /api/ask\<close>, \<^verbatim>\<open>POST /api/upload-bylaws\<close>, \<^verbatim>\<open>POST /api/submit-request\<close>,
  \<^verbatim>\<open>GET /api/health\<close> and \<^verbatim>\<open>GET /api/test-llm\<close>. A request is served by the function of
  its route: \<^verbatim>\<open>POST /api/ask\<close> by \<open>ask_question\<close>; the same path with \<^verbatim>\<open>GET\<close> is answered
  405, and a path with no route 404.
\<close>

theorem C1_ten_routes:
  "card (set app_routes) = 10 \<and>
   map (\<lambda>(ms, path, f). (path, f)) app_routes =
     [(''/openapi.json'', Openapi), (''/docs'', Swagger_ui_html),
      (''/docs/oauth2-redirect'', Swagger_ui_redirect), (''/redoc'', Redoc_html),
      (''/'', Read_root), (''/api/ask'', Ask_question),
      (''/api/upload-bylaws'', Upload_bylaws),
      (''/api/submit-request'', Submit_change_request),
      (''/api/health'', Health_check), (''/api/test-llm'', Test_llm)] \<and>
   filter (\<lambda>(ms, path, f). f \<notin> set (map (\<lambda>(ms, path, f). f) FastAPI)) app_routes =
     [([GET], ''/'', Read_root), ([POST], ''/api/ask'', Ask_question),
      ([POST], ''/api/upload-bylaws'', Upload_bylaws),
      ([POST], ''/api/submit-request'', Submit_change_request),
      ([GET], ''/api/health'', Health_check), ([GET], ''/api/test-llm'', Test_llm)] \<and>
   serve w POST ''/api/ask'' (Question_body q) =
     bind (ask_question w q) (\<lambda>a. ret (Answer_response a)) \<and>
   serve w GET ''/api/ask'' (Question_body q) = raise (HTTPException 405 ''Method Not Allowed'') \<and>
   serve w GET ''/api/answer'' No_body = raise (HTTPException 404 ''Not Found'')"
  by (simp add: app_routes_def app_get_def app_post_def FastAPI_def serve_def)

section \<open>Timeouts\<close>




section \<open>Change requests\<close>

text \<open>
  Claim C3: a successful \<open>submit_change_request\<close> makes the directory \<^verbatim>\<open>requests\<close> and
  writes exactly one file, \<^verbatim>\<open>requests/<request_id>.json\<close>; the file holds the submitted
  fields, the status \<^verbatim>\<open>submitted\<close> and the time of submission, and the request id, the
  status and the time in the response are the ones in the file.
\<close>

theorem C3_submit_writes_one_file:
  assumes "result_of (submit_change_request w request s) = Inr resp"
  shows "trace_of (submit_change_request w request s) =
           [(Direct, Makedirs ''requests''),
            (Direct, WriteFile (''requests/'' @ request_id resp @ ''.json''))] \<and>
         files (state_of (submit_change_request w request s)) =
           (files s)(''requests/'' @ request_id resp @ ''.json'' \<mapsto>
              JsonDoc [(''request_id'', Some (request_id resp)),
                       (''homeowner_name'', Some (homeowner_name request)),
                       (''email'', Some (email request)),
                       (''address'', Some (address request)),
                       (''change_type'', Some (change_type request)),
                       (''description'', Some (description request)),
                       (''urgency'', urgency request),
                       (''status'', Some (status resp)),
                       (''submitted_at'', Some (submitted_at resp))]) \<and>
         status resp = ''submitted''"
  using wp_Inr [OF submit_wp assms] by simp

theorem C3_submit_writes_one_file_witness:
  "result_of (submit_change_request quiet_world fence_request started_service) =
     Inr \<lparr>request_id = ''REQ-20240102030405'', status = ''submitted'',
          submitted_at = ''2024-01-02T03:04:05.000001''\<rparr> \<and>
   trace_of (submit_change_request quiet_world fence_request started_service) =
     [(Direct, Makedirs ''requests''),
      (Direct, WriteFile ''requests/REQ-20240102030405.json'')] \<and>
   files (state_of (submit_change_request quiet_world fence_request started_service))
     ''requests/REQ-20240102030405.json'' =
     Some (JsonDoc [(''request_id'', Some ''REQ-20240102030405''),
                    (''homeowner_name'', Some ''Ada Park''),
                    (''email'', Some ''ada@example.org''),
                    (''address'', Some ''1 Elm Street''),
                    (''change_type'', Some ''fence''),
                    (''description'', Some ''Replace the back fence.''),
                    (''urgency'', Some ''normal''),
                    (''status'', Some ''submitted''),
                    (''submitted_at'', Some ''2024-01-02T03:04:05.000001'')])"
proof -
  have h: "result_of (submit_change_request quiet_world fence_request started_service) =
     Inr \<lparr>request_id = ''REQ-20240102030405'', status = ''submitted'',
          submitted_at = ''2024-01-02T03:04:05.000001''\<rparr>"
    by code_simp
  show ?thesis
    using h C3_submit_writes_one_file [OF h] by (simp add: fence_request_def)
qed

section \<open>Persistence of the index\<close>




section \<open>The order of the pipeline\<close>

text \<open>
  Claim C5: a successful \<open>index_document\<close> loads the PDF, then splits it into chunks of
  size 1000 with overlap 200, then embeds the chunks into the vector index (a new one, or
  the one there is), whose documents are then the old ones followed by the chunks; and a
  successful query runs the chain retriever, prompt template, LLM, output parser: the
  call of the retriever comes first, the LLM is called with the prompt filled with the
  retrieved documents and the question, and its reply is the answer.
\<close>

theorem C5_pipeline_order:
  "(result_of (index_document w file_path s) = Inr u \<longrightarrow>
      (\<exists>b. files s file_path = Some (Bytes b) \<and>
           map snd (trace_of (index_document w file_path s)) =
             [PdfLoad file_path, SplitDocuments 1000 200,
              (if vectorstore s = None then FromDocuments else AddDocuments),
              Makedirs (persist_directory s), SaveLocal (persist_directory s)] \<and>
           (\<exists>r. vectorstore (state_of (index_document w file_path s)) = Some r \<and>
                objs (state_of (index_document w file_path s)) r =
                  (case vectorstore s of None \<Rightarrow> [] | Some r0 \<Rightarrow> objs s r0)
                  @ chunks_of w 1000 200 (page_documents file_path (pdf_pages w b))))) \<and>
   (reachable s \<and> result_of (query w question s) = Inr res \<longrightarrow>
      (\<exists>r l. vectorstore s = Some r \<and> llm s = Some l \<and>
             qa_chain s = Some [RetrieveContext \<lparr>vs_ref = r, search_k = 2\<rparr>, PromptTemplate,
                                LlmStage l, StrOutputParser] \<and>
             map snd (trace_of (query w question s)) =
               [Retrieve 2 question,
                LlmInvoke (prompt_text (format_docs (take 2 (rank w question (objs s r)))) question),
                Retrieve 2 question] \<and>
             answer res =
               llm_reply w l
                 (prompt_text (format_docs (take 2 (rank w question (objs s r)))) question)))"
proof -
  have a: "\<exists>b. files s file_path = Some (Bytes b) \<and>
           map snd (trace_of (index_document w file_path s)) =
             [PdfLoad file_path, SplitDocuments 1000 200,
              (if vectorstore s = None then FromDocuments else AddDocuments),
              Makedirs (persist_directory s), SaveLocal (persist_directory s)] \<and>
           (\<exists>r. vectorstore (state_of (index_document w file_path s)) = Some r \<and>
                objs (state_of (index_document w file_path s)) r =
                  (case vectorstore s of None \<Rightarrow> [] | Some r0 \<Rightarrow> objs s r0)
                  @ chunks_of w 1000 200 (page_documents file_path (pdf_pages w b)))"
    if ok: "result_of (index_document w file_path s) = Inr u"
    using index_success [OF ok] by auto
  have b: "\<exists>r l. vectorstore s = Some r \<and> llm s = Some l \<and>
             qa_chain s = Some [RetrieveContext \<lparr>vs_ref = r, search_k = 2\<rparr>, PromptTemplate,
                                LlmStage l, StrOutputParser] \<and>
             map snd (trace_of (query w question s)) =
               [Retrieve 2 question,
                LlmInvoke (prompt_text (format_docs (take 2 (rank w question (objs s r)))) question),
                Retrieve 2 question] \<and>
             answer res =
               llm_reply w l
                 (prompt_text (format_docs (take 2 (rank w question (objs s r)))) question)"
    if r: "reachable s" and ok: "result_of (query w question s) = Inr res"
    using wp_Inr [OF query_success [OF reachable_chain_ok [OF r]] ok]
    by (auto simp: built_chain_def)
  from a b show ?thesis by blast
qed

theorem C5_pipeline_order_witness:
  "result_of (index_document quiet_world ''documents/bylaws.pdf'' indexed_service) = Inr () \<and>
   map snd (trace_of (index_document quiet_world ''documents/bylaws.pdf'' indexed_service)) =
     [PdfLoad ''documents/bylaws.pdf'', SplitDocuments 1000 200, AddDocuments,
      Makedirs ''./faiss_index'', SaveLocal ''./faiss_index''] \<and>
   reachable indexed_service \<and>
   result_of (query quiet_world ''May I build a fence?'' indexed_service) =
     Inr \<lparr>answer = ''Yes.'', sources = [''bylaws.pdf (Page 1)'']\<rparr> \<and>
   map snd (trace_of (query quiet_world ''May I build a fence?'' indexed_service)) =
     [Retrieve 2 ''May I build a fence?'',
      LlmInvoke (prompt_text ''Fences may be six feet high.'' ''May I build a fence?''),
      Retrieve 2 ''May I build a fence?'']"
proof -
  have h1: "result_of (index_document quiet_world ''documents/bylaws.pdf'' indexed_service) = Inr ()"
    by code_simp
  have h2: "result_of (query quiet_world ''May I build a fence?'' indexed_service) =
     Inr \<lparr>answer = ''Yes.'', sources = [''bylaws.pdf (Page 1)'']\<rparr>"
    by (simp add: indexed_query quiet_world_def)
  have p: "persist_directory indexed_service = ''./faiss_index''"
    using reachable_chain_ok [OF indexed_reachable] by (simp add: chain_ok_def)
  have a: "map snd (trace_of (index_document quiet_world ''documents/bylaws.pdf'' indexed_service)) =
     [PdfLoad ''documents/bylaws.pdf'', SplitDocuments 1000 200, AddDocuments,
      Makedirs ''./faiss_index'', SaveLocal ''./faiss_index'']"
    using C5_pipeline_order [of quiet_world "''documents/bylaws.pdf''" indexed_service "()"] h1
    by (auto simp: p indexed_fields)
  have b: "map snd (trace_of (query quiet_world ''May I build a fence?'' indexed_service)) =
     [Retrieve 2 ''May I build a fence?'',
      LlmInvoke (prompt_text ''Fences may be six feet high.'' ''May I build a fence?''),
      Retrieve 2 ''May I build a fence?'']"
    using C5_pipeline_order [of quiet_world _ indexed_service _ "''May I build a fence?''"
        "\<lparr>answer = ''Yes.'', sources = [''bylaws.pdf (Page 1)'']\<rparr>"]
      indexed_reachable h2
    by (auto simp: indexed_fields)
  show ?thesis
    using h1 h2 a b indexed_reachable by simp
qed

section \<open>Rejected uploads\<close>

text \<open>
  Claim C6 says an upload with empty content is rejected with HTTP 400. The content is
  tested after \<^verbatim>\<open>os.makedirs("documents", exist_ok=True)\<close>, inside the \<^verbatim>\<open>try\<close>: where
  \<^verbatim>\<open>documents\<close> is a regular file, an empty upload named \<^verbatim>\<open>empty.pdf\<close> is answered with
  HTTP 500.
\<close>

theorem C6_empty_upload_counterexample:
  "endswith (filename empty_pdf) ''.pdf'' \<and> content empty_pdf = [] \<and>
   result_of (upload_bylaws quiet_world empty_pdf (state_of (RAGService quiet_world blocked_disk))) =
     Inl (HTTPException 500
           (''Error processing document: [Errno 17] File exists: '' @ quoted ''documents''))"
  by code_simp

text \<open>
  Claim C6, amended: an upload whose name does not end with \<^verbatim>\<open>.pdf\<close> is rejected with
  HTTP 400 before anything is done. An upload named \<^verbatim>\<open>*.pdf\<close> with empty content is
  rejected with HTTP 400 when the directory \<^verbatim>\<open>documents\<close> can be made, and with HTTP 500
  when it cannot; either way the only call is the one that makes the directory, no file
  is written, and the FAISS objects, the vector store and the QA chain are unchanged.
  A file is written or loaded for indexing only for a name ending with \<^verbatim>\<open>.pdf\<close> and a
  content that is not empty.
\<close>

theorem C6_upload_rejection:
  "(\<not> endswith (filename file) ''.pdf'' \<longrightarrow>
      upload_bylaws w file s = ([], s, Inl (HTTPException 400 ''Only PDF files are allowed''))) \<and>
   (endswith (filename file) ''.pdf'' \<and> content file = [] \<longrightarrow>
      (files s ''documents'' = None \<and> fault w (Makedirs ''documents'') = None \<longrightarrow>
         result_of (upload_bylaws w file s) = Inl (HTTPException 400 ''Uploaded file is empty'')) \<and>
      (\<not> (files s ''documents'' = None \<and> fault w (Makedirs ''documents'') = None) \<longrightarrow>
         (\<exists>m. result_of (upload_bylaws w file s) =
                Inl (HTTPException 500 (''Error processing document: '' @ m)))) \<and>
      trace_of (upload_bylaws w file s) = [(Direct, Makedirs ''documents'')] \<and>
      files (state_of (upload_bylaws w file s)) = files s \<and>
      objs (state_of (upload_bylaws w file s)) = objs s \<and>
      vectorstore (state_of (upload_bylaws w file s)) = vectorstore s \<and>
      qa_chain (state_of (upload_bylaws w file s)) = qa_chain s) \<and>
   ((\<exists>c p. (c, WriteFile p) \<in> set (trace_of (upload_bylaws w file s)) \<or>
           (c, PdfLoad p) \<in> set (trace_of (upload_bylaws w file s))) \<longrightarrow>
      endswith (filename file) ''.pdf'' \<and> content file \<noteq> [])"
proof -
  let ?out = "upload_bylaws w file s"
  have a: "?out = ([], s, Inl (HTTPException 400 ''Only PDF files are allowed''))"
    if "\<not> endswith (filename file) ''.pdf''"
    using that by (rule upload_not_pdf)
  have b: "(files s ''documents'' = None \<and> fault w (Makedirs ''documents'') = None \<longrightarrow>
              result_of ?out = Inl (HTTPException 400 ''Uploaded file is empty'')) \<and>
           (\<not> (files s ''documents'' = None \<and> fault w (Makedirs ''documents'') = None) \<longrightarrow>
              (\<exists>m. result_of ?out = Inl (HTTPException 500 (''Error processing document: '' @ m)))) \<and>
           trace_of ?out = [(Direct, Makedirs ''documents'')] \<and>
           files (state_of ?out) = files s \<and> objs (state_of ?out) = objs s \<and>
           vectorstore (state_of ?out) = vectorstore s \<and> qa_chain (state_of ?out) = qa_chain s"
    if "endswith (filename file) ''.pdf''" and "content file = []"
    using upload_empty_wp [OF that, of w s]
    by (cases "result_of ?out") (auto simp: wp_outcome split: if_splits)
  show ?thesis
  proof (cases "endswith (filename file) ''.pdf''")
    case False
    with a show ?thesis by simp
  next
    case pdf: True
    show ?thesis
    proof (cases "content file = []")
      case True
      with pdf b show ?thesis by simp
    next
      case False
      with pdf show ?thesis by simp
    qed
  qed
qed

theorem C6_upload_rejection_witness:
  "\<not> endswith (filename notes_txt) ''.pdf'' \<and>
   upload_bylaws quiet_world notes_txt started_service =
     ([], started_service, Inl (HTTPException 400 ''Only PDF files are allowed'')) \<and>
   endswith (filename empty_pdf) ''.pdf'' \<and> content empty_pdf = [] \<and>
   files started_service ''documents'' = None \<and> fault quiet_world (Makedirs ''documents'') = None \<and>
   result_of (upload_bylaws quiet_world empty_pdf started_service) =
     Inl (HTTPException 400 ''Uploaded file is empty'') \<and>
   files (state_of (upload_bylaws quiet_world empty_pdf started_service)) = files started_service \<and>
   (Direct, WriteFile ''documents/bylaws.pdf'')
     \<in> set (trace_of (upload_bylaws quiet_world bylaws_pdf started_service)) \<and>
   endswith (filename bylaws_pdf) ''.pdf'' \<and> content bylaws_pdf \<noteq> []"
proof -
  have h1: "\<not> endswith (filename notes_txt) ''.pdf''" by code_simp
  have h2: "endswith (filename empty_pdf) ''.pdf''" "content empty_pdf = []" by code_simp+
  have h3: "files started_service ''documents'' = None" by (rule started_fields)
  have h4: "fault quiet_world (Makedirs ''documents'') = None" by simp
  have h5: "(Direct, WriteFile ''documents/bylaws.pdf'')
     \<in> set (trace_of (upload_bylaws quiet_world bylaws_pdf started_service))" by code_simp
  have n: "upload_bylaws quiet_world notes_txt started_service =
     ([], started_service, Inl (HTTPException 400 ''Only PDF files are allowed''))"
    using C6_upload_rejection [of notes_txt quiet_world started_service] h1 by simp
  have e: "result_of (upload_bylaws quiet_world empty_pdf started_service) =
     Inl (HTTPException 400 ''Uploaded file is empty'') \<and>
     files (state_of (upload_bylaws quiet_world empty_pdf started_service)) = files started_service"
    using C6_upload_rejection [of empty_pdf quiet_world started_service] h2 h3 h4 by simp
  have p: "endswith (filename bylaws_pdf) ''.pdf'' \<and> content bylaws_pdf \<noteq> []"
    using C6_upload_rejection [of bylaws_pdf quiet_world started_service] h5 by blast
  show ?thesis
    using h1 h2 h3 h4 h5 n e p by simp
qed

section \<open>Thread pools\<close>

text \<open>
  Claim C7 says every blocking call made while serving a request, document indexing
  included, is offloaded to a thread pool. \<open>index_document\<close> has no \<^verbatim>\<open>await\<close> and no
  \<^verbatim>\<open>run_in_executor\<close>: serving an upload, the PDF is loaded, split, embedded and saved on
  the thread of the event loop.
\<close>

theorem C7_indexing_on_event_loop_counterexample:
  "trace_of (upload_bylaws quiet_world bylaws_pdf started_service) =
     [(Direct, Makedirs ''documents''),
      (Direct, WriteFile ''documents/bylaws.pdf''),
      (Direct, PdfLoad ''documents/bylaws.pdf''),
      (Direct, SplitDocuments 1000 200),
      (Direct, FromDocuments),
      (Direct, Makedirs ''./faiss_index''),
      (Direct, SaveLocal ''./faiss_index'')]"
  by code_simp

text \<open>
  Claim C7, amended: every call \<open>query\<close> makes runs on the executor of the service, and
  every call \<open>test_llm\<close> makes runs on the default executor; a successful query on a
  reachable state makes exactly three calls there: the retrieval and the LLM call of the
  chain, then the retrieval of the source documents. Indexing is not offloaded: every
  call \<open>index_document\<close> makes runs on the thread of its caller.
\<close>

theorem C7_query_on_executor:
  "list_all (\<lambda>ev. fst ev = Pool ServiceExecutor) (trace_of (query w question s)) \<and>
   list_all (\<lambda>ev. fst ev = Pool DefaultExecutor) (trace_of (test_llm w s)) \<and>
   list_all (\<lambda>ev. fst ev = Direct) (trace_of (index_document w file_path s)) \<and>
   (reachable s \<and> result_of (query w question s) = Inr res \<longrightarrow>
      (\<exists>prompt. trace_of (query w question s) =
         [(Pool ServiceExecutor, Retrieve 2 question),
          (Pool ServiceExecutor, LlmInvoke prompt),
          (Pool ServiceExecutor, Retrieve 2 question)]))"
proof -
  have "\<exists>prompt. trace_of (query w question s) =
         [(Pool ServiceExecutor, Retrieve 2 question),
          (Pool ServiceExecutor, LlmInvoke prompt),
          (Pool ServiceExecutor, Retrieve 2 question)]"
    if "reachable s" and "result_of (query w question s) = Inr res"
    using wp_Inr [OF query_success [OF reachable_chain_ok [OF that(1)]] that(2)] by blast
  then show ?thesis
    using query_on_pool [of w question s] probe_on_pool [of w s] index_direct [of w file_path s]
    by blast
qed

theorem C7_query_on_executor_witness:
  "reachable indexed_service \<and>
   result_of (query quiet_world ''May I build a fence?'' indexed_service) =
     Inr \<lparr>answer = ''Yes.'', sources = [''bylaws.pdf (Page 1)'']\<rparr> \<and>
   map fst (trace_of (query quiet_world ''May I build a fence?'' indexed_service)) =
     [Pool ServiceExecutor, Pool ServiceExecutor, Pool ServiceExecutor] \<and>
   list_all (\<lambda>ev. fst ev = Pool DefaultExecutor) (trace_of (test_llm quiet_world indexed_service)) \<and>
   list_all (\<lambda>ev. fst ev = Direct)
     (trace_of (index_document quiet_world ''documents/bylaws.pdf'' indexed_service))"
proof -
  have q: "result_of (query quiet_world ''May I build a fence?'' indexed_service) =
     Inr \<lparr>answer = ''Yes.'', sources = [''bylaws.pdf (Page 1)'']\<rparr>"
    by (simp add: indexed_query quiet_world_def)
  from C7_query_on_executor [where w = quiet_world and question = "''May I build a fence?''"
      and s = indexed_service and file_path = "''documents/bylaws.pdf''"
      and res = "\<lparr>answer = ''Yes.'', sources = [''bylaws.pdf (Page 1)'']\<rparr>"]
    indexed_reachable q
  show ?thesis by auto
qed

section \<open>The sources of an answer\<close>

text \<open>
  Claim C10: the sources of a successful query on a reachable state are distinct and at
  most two, and each is the base name of the \<^verbatim>\<open>source\<close> of one of the two retrieved
  documents (\<^verbatim>\<open>Unknown\<close> when it has none), followed by \<^verbatim>\<open>(Page n + 1)\<close> for its page \<open>n\<close>.
\<close>

theorem C10_sources:
  "reachable s \<Longrightarrow> result_of (query w question s) = Inr res \<Longrightarrow>
   distinct (sources res) \<and> length (sources res) \<le> 2 \<and>
   (\<forall>entry \<in> set (sources res).
      \<exists>r doc src n.
        vectorstore s = Some r \<and> doc \<in> set (take 2 (rank w question (objs s r))) \<and>
        dict_get (metadata doc) ''source'' (PStr ''Unknown'') = PStr src \<and>
        map_of (metadata doc) ''page'' = Some (PInt n) \<and>
        entry = basename src @ '' (Page '' @ str_int (n + 1) @ '')'')"
proof -
  assume r: "reachable s" and ok: "result_of (query w question s) = Inr res"
  from wp_Inr [OF query_success [OF reachable_chain_ok [OF r]] ok]
  obtain r0 srcs where v: "vectorstore s = Some r0"
    and c: "collect_sources (take 2 (rank w question (objs s r0))) [] = Inr srcs"
    and e: "sources res = remdups srcs"
    by blast
  from collect_sources_Inr [OF c]
  have len: "length srcs \<le> 2"
    and mem: "\<forall>entry \<in> set srcs. \<exists>d \<in> set (take 2 (rank w question (objs s r0))).
                 source_entry d = Inr entry"
    by auto
  have l2: "length (sources res) \<le> 2"
    unfolding e by (rule le_trans [OF length_remdups_leq len])
  have d: "distinct (sources res)" using e by simp
  have f: "\<exists>r doc src n.
        vectorstore s = Some r \<and> doc \<in> set (take 2 (rank w question (objs s r))) \<and>
        dict_get (metadata doc) ''source'' (PStr ''Unknown'') = PStr src \<and>
        map_of (metadata doc) ''page'' = Some (PInt n) \<and>
        entry = basename src @ '' (Page '' @ str_int (n + 1) @ '')''"
    if "entry \<in> set (sources res)" for entry
  proof -
    from that e have "entry \<in> set srcs" by simp
    with mem obtain doc where "doc \<in> set (take 2 (rank w question (objs s r0)))"
      and "source_entry doc = Inr entry" by blast
    with v source_entry_Inr [of doc entry] show ?thesis by blast
  qed
  from d l2 f show ?thesis by blast
qed

theorem C10_sources_witness:
  "reachable indexed_service \<and>
   result_of (query quiet_world ''May I build a fence?'' indexed_service) =
     Inr \<lparr>answer = ''Yes.'', sources = [''bylaws.pdf (Page 1)'']\<rparr> \<and>
   distinct [''bylaws.pdf (Page 1)''] \<and> length [''bylaws.pdf (Page 1)''] \<le> 2 \<and>
   (\<exists>doc src n.
      doc \<in> set (objs indexed_service 0) \<and>
      dict_get (metadata doc) ''source'' (PStr ''Unknown'') = PStr src \<and>
      map_of (metadata doc) ''page'' = Some (PInt n) \<and>
      ''bylaws.pdf (Page 1)'' = basename src @ '' (Page '' @ str_int (n + 1) @ '')'')"
proof -
  have h: "result_of (query quiet_world ''May I build a fence?'' indexed_service) =
     Inr \<lparr>answer = ''Yes.'', sources = [''bylaws.pdf (Page 1)'']\<rparr>"
    by (simp add: indexed_query quiet_world_def)
  from C10_sources [OF indexed_reachable h]
  have "\<exists>r doc src n.
        vectorstore indexed_service = Some r \<and>
        doc \<in> set (take 2 (rank quiet_world ''May I build a fence?'' (objs indexed_service r))) \<and>
        dict_get (metadata doc) ''source'' (PStr ''Unknown'') = PStr src \<and>
        map_of (metadata doc) ''page'' = Some (PInt n) \<and>
        ''bylaws.pdf (Page 1)'' = basename src @ '' (Page '' @ str_int (n + 1) @ '')''"
    by simp
  then have "\<exists>doc src n.
      doc \<in> set (objs indexed_service 0) \<and>
      dict_get (metadata doc) ''source'' (PStr ''Unknown'') = PStr src \<and>
      map_of (metadata doc) ''page'' = Some (PInt n) \<and>
      ''bylaws.pdf (Page 1)'' = basename src @ '' (Page '' @ str_int (n + 1) @ '')''"
    by (simp add: indexed_fields)
  with indexed_reachable h show ?thesis by simp
qed

end
